theory Spec2Isabelle
  imports Main "HOL-Library.Word" "HOL-Library.Signed_Division"
begin

section \<open>rifiuti2, \<^verbatim>\<open>src/utils.c\<close>: data model\<close>

text \<open>
  An enumeration is a datatype, a structure is a record, a pointer that may be
  \<^verbatim>\<open>NULL\<close> is an option.
\<close>

type_synonym byte = "8 word"

text \<open>
  Modelled from the spec: the enumerations \<^verbatim>\<open>rbin_type\<close>, \<^verbatim>\<open>out_fmt\<close> and
  \<^verbatim>\<open>exitcode\<close> are declared in headers that \<^verbatim>\<open>utils.c\<close> includes and that
  are not among the sources. The kind of source is "single flat file" or "directory of
  per-item files" (section 3); the output formats are text, XML and JSON (section 9),
  with the value \<^verbatim>\<open>utils.c\<close> uses for "not chosen yet"; the exit codes are the
  ones \<^verbatim>\<open>utils.c\<close> names, the one for dubious data being "distinct from full
  success" (section 7). The enumerators bear the names \<^verbatim>\<open>utils.c\<close> uses.
\<close>

datatype rbin_type = RECYCLE_BIN_TYPE_FILE | RECYCLE_BIN_TYPE_DIR

datatype out_fmt = FORMAT_UNKNOWN | FORMAT_TEXT | FORMAT_XML | FORMAT_JSON

datatype exitcode =
    EXIT_OK
  | EXIT_ERR_ARG
  | EXIT_ERR_OPEN_FILE
  | EXIT_ERR_ILLEGAL_DATA
  | EXIT_ERR_WRITE_FILE
  | EXIT_ERR_NO_LIVE
  | EXIT_ERR_DUBIOUS_DATA
  | EXIT_ERR_UNHANDLED

text \<open>The enumeration \<^verbatim>\<open>_os_guess\<close> of \<^verbatim>\<open>utils.c\<close>, lines 57 to 69.\<close>

datatype os_guess =
    OS_GUESS_UNKNOWN
  | OS_GUESS_95
  | OS_GUESS_NT4
  | OS_GUESS_98
  | OS_GUESS_ME
  | OS_GUESS_2K
  | OS_GUESS_XP_03
  | OS_GUESS_2K_03
  | OS_GUESS_VISTA
  | OS_GUESS_10

text \<open>
  The table \<^verbatim>\<open>os_strings\<close>, lines 75 to 85, indexed by the enumerators from
  \<^verbatim>\<open>OS_GUESS_95 = 0\<close> on. \<^verbatim>\<open>OS_GUESS_UNKNOWN = -1\<close> has no entry: the only
  reader of the table, \<^verbatim>\<open>_print_text_header\<close>, tests for it first.
\<close>

fun os_strings :: "os_guess \<Rightarrow> string option" where
  "os_strings OS_GUESS_UNKNOWN = None"
| "os_strings OS_GUESS_95 = Some ''Windows 95''"
| "os_strings OS_GUESS_NT4 = Some ''Windows NT 4.0''"
| "os_strings OS_GUESS_98 = Some ''Windows 98''"
| "os_strings OS_GUESS_ME = Some ''Windows ME''"
| "os_strings OS_GUESS_2K = Some ''Windows 2000''"
| "os_strings OS_GUESS_XP_03 = Some ''Windows XP or 2003''"
| "os_strings OS_GUESS_2K_03 = Some ''Windows 2000, XP or 2003''"
| "os_strings OS_GUESS_VISTA = Some ''Windows Vista - 8.1''"
| "os_strings OS_GUESS_10 = Some ''Windows 10 or above''"

text \<open>
  A \<^verbatim>\<open>GQuark\<close> is an interned string; the quarks \<^verbatim>\<open>utils.c\<close> compares are
  constructors, any other quark carries its string. A \<^verbatim>\<open>GError\<close> is glib's
  triple of domain, code and message.
\<close>

datatype gquark =
    G_OPTION_ERROR
  | G_FILE_ERROR
  | G_CONVERT_ERROR
  | R2_FATAL_ERROR
  | R2_REC_ERROR
  | Quark string

record gerror =
  domain :: gquark
  code :: int
  message :: string

text \<open>glib's \<^verbatim>\<open>g_error_matches\<close>: a \<^verbatim>\<open>NULL\<close> error matches nothing.\<close>

definition g_error_matches :: "gerror option \<Rightarrow> gquark \<Rightarrow> int \<Rightarrow> bool" where
  "g_error_matches err d c =
     (case err of None \<Rightarrow> False | Some e \<Rightarrow> domain e = d \<and> code e = c)"

text \<open>The values of glib's public enumerations \<^verbatim>\<open>GOptionError\<close> and \<^verbatim>\<open>GConvertError\<close>.\<close>

definition G_OPTION_ERROR_BAD_VALUE :: int where "G_OPTION_ERROR_BAD_VALUE = 1"
definition G_OPTION_ERROR_FAILED :: int where "G_OPTION_ERROR_FAILED = 2"
definition G_CONVERT_ERROR_NO_CONVERSION :: int where "G_CONVERT_ERROR_NO_CONVERSION = 0"
definition G_CONVERT_ERROR_ILLEGAL_SEQUENCE :: int where "G_CONVERT_ERROR_ILLEGAL_SEQUENCE = 1"
definition G_CONVERT_ERROR_PARTIAL_INPUT :: int where "G_CONVERT_ERROR_PARTIAL_INPUT = 3"

text \<open>
  glib's opaque \<^verbatim>\<open>GDateTime\<close>: an instant, kept as its count of seconds since the
  Unix epoch, and the offset from UTC, in seconds, of the zone it is shown in.
\<close>

datatype GDateTime = GDateTime (unix_seconds: int) (utc_offset: int)

text \<open>
  Modelled from the spec: \<^verbatim>\<open>rbin_struct\<close>, one deleted-file entry, is declared in
  a header that is not among the sources. The fields are those of the Record of
  section 3 (index as a number or as a string, deletion time, declared size, tri-state
  existence, the two raw paths, the optional decode error), under the names and with
  the types \<^verbatim>\<open>utils.c\<close> reads them with. \<^verbatim>\<open>gone\<close> is the index into a format's
  table \<^verbatim>\<open>gone_outtext\<close>; \<^verbatim>\<open>filesize\<close> is a \<^verbatim>\<open>uint64_t\<close>;
  \<^verbatim>\<open>deltime\<close> is a \<^verbatim>\<open>GDateTime *\<close>, which is \<^verbatim>\<open>NULL\<close> when
  \<^verbatim>\<open>win_filetime_to_gdatetime\<close> returned \<^verbatim>\<open>NULL\<close>.
\<close>

record rbin_struct =
  index_n :: "32 word"
  index_s :: "string option"
  deltime :: "GDateTime option"
  gone :: nat
  filesize :: "64 word"
  raw_uni_path :: "byte list option"
  raw_legacy_path :: "byte list option"
  error :: "gerror option"

text \<open>
  Modelled from the spec: \<^verbatim>\<open>metarecord\<close>, the metadata of one scan, is declared
  in a header that is not among the sources. The fields are those of the Artifact
  metadata of section 3 (kind of source, declared version, record layout size, counter
  of entries ever deleted, junk-pattern flag, records, unreadable entries) and the file
  name, under the names \<^verbatim>\<open>utils.c\<close> reads them with. \<^verbatim>\<open>rtype\<close> is the field
  \<^verbatim>\<open>type\<close>; \<^verbatim>\<open>version\<close> is an \<^verbatim>\<open>int64_t\<close> that is only compared and
  printed; \<^verbatim>\<open>records\<close> is the \<^verbatim>\<open>GPtrArray\<close> of the records in insertion order;
  \<^verbatim>\<open>invalid_records\<close> is the hash table from a key to the error of an entry that
  gave no record, as the list of its bindings.
\<close>

record metarecord =
  rtype :: rbin_type
  filename :: string
  version :: int
  recordsize :: nat
  total_entry :: "32 word"
  fill_junk :: bool
  records :: "rbin_struct list"
  invalid_records :: "(string \<times> gerror) list"

text \<open>
  The enumerators of \<^verbatim>\<open>detected_os_ver\<close> that \<^verbatim>\<open>utils.c\<close> compares
  \<^verbatim>\<open>meta->version\<close> with. The header that gives them their values is not part of
  \<^verbatim>\<open>utils.c\<close>, so the values are a parameter of every function that reads them.
  The two sets of enumerators, for the per-item and for the flat-file format, may share
  values; inside one \<^verbatim>\<open>switch\<close> the labels are distinct, or the file would not
  compile.
\<close>

record detected_os_ver =
  VERSION_NOT_FOUND :: int
  VERSION_VISTA :: int
  VERSION_WIN10 :: int
  VERSION_WIN95 :: int
  VERSION_NT4 :: int
  VERSION_WIN98 :: int
  VERSION_ME_03 :: int

text \<open>
  The values used wherever a function is evaluated at a concrete input; the general
  statements hold for every assignment of values. The version field of a \<^verbatim>\<open>$I\<close>
  file is 1 or 2 (section 8 of the specification); the first field of an
  \<^verbatim>\<open>INFO2\<close> file is 0, 2, 4 or 5, and "not found" is negative.
\<close>

definition os_ver_values :: detected_os_ver where
  "os_ver_values =
     \<lparr>VERSION_NOT_FOUND = - 1, VERSION_VISTA = 1, VERSION_WIN10 = 2, VERSION_WIN95 = 0,
      VERSION_NT4 = 2, VERSION_WIN98 = 4, VERSION_ME_03 = 5\<rparr>"

text \<open>How a call can end without returning: \<^verbatim>\<open>g_assert_not_reached\<close> aborts.\<close>

datatype failure = Assert_not_reached

section \<open>The version classifier\<close>

text \<open>
  \<^verbatim>\<open>_guess_windows_ver\<close>, lines 798 to 840. Each \<^verbatim>\<open>switch\<close> is the chain of
  comparisons in the order of its labels; the \<^verbatim>\<open>default\<close> of the second one
  aborts.
\<close>

definition guess_windows_ver :: "detected_os_ver \<Rightarrow> metarecord \<Rightarrow> failure + os_guess" where
  "guess_windows_ver c m =
     (if rtype m = RECYCLE_BIN_TYPE_DIR then
        (if version m = VERSION_VISTA c then Inr OS_GUESS_VISTA
         else if version m = VERSION_WIN10 c then Inr OS_GUESS_10
         else Inr OS_GUESS_UNKNOWN)
      else if version m = VERSION_WIN95 c then Inr OS_GUESS_95
      else if version m = VERSION_WIN98 c then Inr OS_GUESS_98
      else if version m = VERSION_NT4 c then Inr OS_GUESS_NT4
      else if version m = VERSION_ME_03 c then
        (if recordsize m = 280 then Inr OS_GUESS_ME
         else if length (records m) = 0 then Inr OS_GUESS_2K_03
         else Inr (if fill_junk m then OS_GUESS_2K else OS_GUESS_XP_03))
      else Inl Assert_not_reached)"

section \<open>Formatting of numbers and strings\<close>

text \<open>
  \<^verbatim>\<open>printf\<close>'s \<^verbatim>\<open>%u\<close> and \<^verbatim>\<open>%d\<close>: a number in decimal, without padding.
\<close>

fun dec :: "nat \<Rightarrow> string" where
  "dec n =
     (if n < 10 then [''0123456789'' ! n]
      else dec (n div 10) @ [''0123456789'' ! (n mod 10)])"

text \<open>The equation of \<open>dec\<close> is unfolded by hand: as a rewrite rule it applies to its own result.\<close>

declare dec.simps [simp del]

definition dec_int :: "int \<Rightarrow> string" where
  "dec_int i = (if i < 0 then ''-'' @ dec (nat (- i)) else dec (nat i))"

definition newline :: string where "newline = [CHR 0x0A]"

definition tab :: string where "tab = [CHR 0x09]"

definition apostrophe :: string where "apostrophe = [CHR 0x27]"

text \<open>\<^verbatim>\<open>printf\<close>'s \<^verbatim>\<open>%s\<close>; the C library writes \<^verbatim>\<open>(null)\<close> for a null pointer.\<close>

definition str_arg :: "string option \<Rightarrow> string" where
  "str_arg s = (case s of None \<Rightarrow> ''(null)'' | Some t \<Rightarrow> t)"

text \<open>
  glib's \<^verbatim>\<open>g_strjoinv\<close>: the array ends at its first \<^verbatim>\<open>NULL\<close>, and a
  \<^verbatim>\<open>NULL\<close> separator is the empty string.
\<close>

fun join_with :: "string \<Rightarrow> string list \<Rightarrow> string" where
  "join_with sep [] = []"
| "join_with sep [s] = s"
| "join_with sep (s # t # ts) = s @ sep @ join_with sep (t # ts)"

definition g_strjoinv :: "string option \<Rightarrow> string option list \<Rightarrow> string" where
  "g_strjoinv separator str_array =
     join_with (case separator of None \<Rightarrow> [] | Some s \<Rightarrow> s)
       (map the (takeWhile (\<lambda>s. s \<noteq> None) str_array))"

definition G_MAXUINT64 :: "64 word" where
  "G_MAXUINT64 = 18446744073709551615"

section \<open>Global state and collaborators\<close>

text \<open>
  The file-level variables of \<^verbatim>\<open>utils.c\<close>, lines 88 to 98, with their initial
  values, and the \<^verbatim>\<open>static bool seen\<close> of two option callbacks.
\<close>

record globals =
  output_format :: out_fmt
  no_heading :: bool
  use_localtime :: bool
  live_mode :: bool
  delim :: "string option"
  output_loc :: "string option"
  legacy_encoding :: "string option"
  seen_delim :: bool
  seen_encoding :: bool

definition initial_globals :: globals where
  "initial_globals =
     \<lparr>output_format = FORMAT_UNKNOWN, no_heading = False, use_localtime = False,
      live_mode = False, delim = None, output_loc = None, legacy_encoding = None,
      seen_delim = False, seen_encoding = False\<rparr>"

text \<open>
  What \<^verbatim>\<open>utils.c\<close> calls and does not define: functions of its sibling files
  (\<^verbatim>\<open>utils-conv.c\<close>, \<^verbatim>\<open>utils-io.c\<close>, \<^verbatim>\<open>utils-platform.c\<close>), the table
  \<^verbatim>\<open>fmt\<close>, and the functions of glib whose result depends on the system (time
  zone, clock, file names). They are parameters of the model.
  \<^verbatim>\<open>conv_path_to_utf8_with_tmpl\<close> takes the raw path, the encoding, the format,
  the transformation and the value of \<^verbatim>\<open>*error\<close>, and gives the text (or
  \<^verbatim>\<open>NULL\<close>) and the new value of \<^verbatim>\<open>*error\<close>. \<^verbatim>\<open>enc_is_ascii_compatible\<close>
  gives its result and the error it stores. \<^verbatim>\<open>get_tempfile\<close> and
  \<^verbatim>\<open>clean_tempfile\<close> give the error they store when they fail. The
  functions of glib that make or format a \<^verbatim>\<open>GDateTime\<close> may return
  \<^verbatim>\<open>NULL\<close>; each of them returns \<^verbatim>\<open>NULL\<close> when the \<^verbatim>\<open>GDateTime\<close> it is
  given is \<^verbatim>\<open>NULL\<close>, as does \<^verbatim>\<open>g_date_time_ref\<close>, which is why the model
  applies them with \<open>Option.bind\<close>.
\<close>

record ext =
  friendly_name :: "out_fmt \<Rightarrow> string"
  gone_outtext :: "out_fmt \<Rightarrow> nat \<Rightarrow> string"
  filter_escapes :: "string \<Rightarrow> string"
  json_escape :: "string \<Rightarrow> string"
  conv_path_to_utf8_with_tmpl ::
    "byte list option \<Rightarrow> string option \<Rightarrow> out_fmt \<Rightarrow> (string \<Rightarrow> string) option \<Rightarrow>
     gerror option \<Rightarrow> string option \<times> gerror option"
  enc_is_ascii_compatible :: "string \<Rightarrow> bool \<times> gerror option"
  g_date_time_format :: "GDateTime \<Rightarrow> string \<Rightarrow> string option"
  g_date_time_to_local :: "GDateTime \<Rightarrow> GDateTime option"
  g_date_time_new_now_local :: "GDateTime option"
  g_date_time_new_now_utc :: "GDateTime option"
  g_filename_display_name :: "string \<Rightarrow> string"
  windows_product_name :: "string option"
  get_tempfile :: "gerror option"
  clean_tempfile :: "string \<Rightarrow> gerror option"

text \<open>
  The result of a function that returns a \<^verbatim>\<open>gboolean\<close> and reports through a
  \<^verbatim>\<open>GError **\<close>: \<^verbatim>\<open>TRUE\<close>, or \<^verbatim>\<open>FALSE\<close> with the error it has set.
\<close>

datatype gboolean = TRUE | FALSE gerror

section \<open>Option callbacks\<close>

text \<open>\<^verbatim>\<open>_set_out_format\<close>, lines 175 to 195.\<close>

definition set_out_format :: "ext \<Rightarrow> out_fmt \<Rightarrow> globals \<Rightarrow> gboolean \<times> globals" where
  "set_out_format x desired_format g =
     (if output_format g = desired_format then (TRUE, g)
      else if output_format g = FORMAT_UNKNOWN then
        (TRUE, g\<lparr>output_format := desired_format\<rparr>)
      else
        (FALSE \<lparr>domain = G_OPTION_ERROR, code = G_OPTION_ERROR_FAILED,
           message = ''Output was already set in '' @ friendly_name x (output_format g) @
             '', but later argument attempts to change to '' @
             friendly_name x desired_format\<rparr>, g))"

text \<open>\<^verbatim>\<open>_set_opt_format\<close>, lines 198 to 222.\<close>

definition set_opt_format :: "ext \<Rightarrow> string \<Rightarrow> globals \<Rightarrow> gboolean \<times> globals" where
  "set_opt_format x format g =
     (if format = ''text'' then set_out_format x FORMAT_TEXT g
      else if format = ''tsv'' then set_out_format x FORMAT_TEXT g
      else if format = ''csv'' then set_out_format x FORMAT_TEXT g
      else if format = ''xml'' then set_out_format x FORMAT_XML g
      else if format = ''json'' then set_out_format x FORMAT_JSON g
      else
        (FALSE \<lparr>domain = G_OPTION_ERROR, code = G_OPTION_ERROR_BAD_VALUE,
           message = ''Illegal output format '' @ apostrophe @ format @ apostrophe\<rparr>, g))"

text \<open>\<^verbatim>\<open>_set_opt_noheading\<close>, lines 229 to 242.\<close>

definition set_opt_noheading :: "ext \<Rightarrow> globals \<Rightarrow> gboolean \<times> globals" where
  "set_opt_noheading x g = set_out_format x FORMAT_TEXT (g\<lparr>no_heading := True\<rparr>)"

text \<open>\<^verbatim>\<open>_set_opt_delim\<close>, lines 249 to 271.\<close>

definition set_opt_delim :: "ext \<Rightarrow> string \<Rightarrow> globals \<Rightarrow> gboolean \<times> globals" where
  "set_opt_delim x val g =
     (if seen_delim g then
        (FALSE \<lparr>domain = G_OPTION_ERROR, code = G_OPTION_ERROR_FAILED,
           message = ''Multiple delimiter options disallowed.''\<rparr>, g)
      else
        set_out_format x FORMAT_TEXT
          (g\<lparr>seen_delim := True,
             delim := Some (if val \<noteq> [] then filter_escapes x val else [])\<rparr>))"

text \<open>\<^verbatim>\<open>_option_deprecated\<close>, lines 320 to 334.\<close>

definition option_deprecated :: "ext \<Rightarrow> string \<Rightarrow> globals \<Rightarrow> gboolean \<times> globals" where
  "option_deprecated x opt_name g =
     (if opt_name = ''-x'' \<or> opt_name = ''--xml'' then set_out_format x FORMAT_XML g
      else (TRUE, g))"

text \<open>\<^verbatim>\<open>_set_def_output_opts\<close>, lines 506 to 525.\<close>

definition set_def_output_opts :: "globals \<Rightarrow> gboolean \<times> globals" where
  "set_def_output_opts g =
     (let g1 = (if delim g = None then g\<lparr>delim := Some tab\<rparr> else g);
          g2 = (if output_format g1 = FORMAT_UNKNOWN then g1\<lparr>output_format := FORMAT_TEXT\<rparr>
                else g1)
      in (TRUE, g2))"

text \<open>
  \<^verbatim>\<open>_check_legacy_encoding\<close>, lines 342 to 401, as built for a system other than
  Windows. The messages are those of the source, untranslated.
\<close>

definition check_legacy_encoding ::
    "ext \<Rightarrow> string \<Rightarrow> globals \<Rightarrow> failure + gboolean \<times> globals" where
  "check_legacy_encoding x enc g =
     (if seen_encoding g then
        Inr (FALSE \<lparr>domain = G_OPTION_ERROR, code = G_OPTION_ERROR_FAILED,
               message = ''Multiple encoding options disallowed.''\<rparr>, g)
      else
        let g1 = g\<lparr>seen_encoding := True\<rparr> in
        if enc = [] then
          Inr (FALSE \<lparr>domain = G_OPTION_ERROR, code = G_OPTION_ERROR_BAD_VALUE,
                 message = ''Empty encoding option disallowed.''\<rparr>, g1)
        else
          (case enc_is_ascii_compatible x enc of
            (True, conv_err) \<Rightarrow> Inr (TRUE, g1\<lparr>legacy_encoding := Some enc\<rparr>)
          | (False, conv_err) \<Rightarrow>
              if g_error_matches conv_err G_CONVERT_ERROR G_CONVERT_ERROR_NO_CONVERSION then
                Inr (FALSE \<lparr>domain = G_OPTION_ERROR, code = G_OPTION_ERROR_BAD_VALUE,
                       message = apostrophe @ enc @ apostrophe @
                         '' encoding is not supported by glib library on this system.  '' @
                         ''If iconv program is present on system, use '' @ apostrophe @
                         ''iconv -l'' @ apostrophe @ '' for a list of possible '' @
                         ''alternatives; otherwise check out following site for a list '' @
                         ''of probable encodings to use:'' @ newline @ newline @ tab @
                         ''https://www.gnu.org/software/libiconv/''\<rparr>, g1)
              else if g_error_matches conv_err G_CONVERT_ERROR G_CONVERT_ERROR_ILLEGAL_SEQUENCE
                    \<or> g_error_matches conv_err G_CONVERT_ERROR G_CONVERT_ERROR_PARTIAL_INPUT then
                Inr (FALSE \<lparr>domain = G_OPTION_ERROR, code = G_OPTION_ERROR_BAD_VALUE,
                       message = apostrophe @ enc @ apostrophe @
                         '' is incompatible to any Windows code page.''\<rparr>, g1)
              else Inl Assert_not_reached))"

section \<open>Time\<close>

text \<open>
  glib's \<^verbatim>\<open>g_date_time_new_from_unix_utc\<close>: a \<^verbatim>\<open>GDateTime\<close> covers the years 1
  to 9999, and the function returns \<^verbatim>\<open>NULL\<close> for a time outside of them. The
  bounds are 0001-01-01 00:00:00 and 9999-12-31 23:59:59 UTC in seconds since the Unix
  epoch.
\<close>

definition g_date_time_new_from_unix_utc :: "int \<Rightarrow> GDateTime option" where
  "g_date_time_new_from_unix_utc t =
     (if - 62135596800 \<le> t \<and> t \<le> 253402300799 then Some (GDateTime t 0) else None)"

text \<open>
  \<^verbatim>\<open>win_filetime_to_gdatetime\<close>, lines 533 to 545. The subtraction is that of
  \<^verbatim>\<open>int64_t\<close>, wrapping around; the division is C's, truncating towards zero,
  of the signed values.
\<close>

definition win_filetime_to_gdatetime :: "64 word \<Rightarrow> GDateTime option" where
  "win_filetime_to_gdatetime win_filetime =
     (let t = (word_of_int (sint (win_filetime - 116444736000000000) sdiv 10000000) :: 64 word)
      in g_date_time_new_from_unix_utc (sint t))"

section \<open>Serialization\<close>

text \<open>
  The output functions write to the standard output with \<^verbatim>\<open>g_print\<close>; the model
  returns the text written. A record function also receives \<^verbatim>\<open>&record->error\<close>
  through its call of \<^verbatim>\<open>conv_path_to_utf8_with_tmpl\<close>, so it returns the record
  as that call leaves it. Messages are those of the source, untranslated.
\<close>

text \<open>
  The block of \<^verbatim>\<open>_print_text_header\<close> that writes the line about the operating
  system, lines 944 to 965, as built where live inspection exists.
\<close>

definition print_os_line ::
    "detected_os_ver \<Rightarrow> ext \<Rightarrow> globals \<Rightarrow> metarecord \<Rightarrow> failure + string" where
  "print_os_line c x g m =
     (if live_mode g then
        (case windows_product_name x of
          Some product_name \<Rightarrow> Inr (''OS: '' @ product_name)
        | None \<Rightarrow> Inr ''OS detection failed'')
      else
        (case guess_windows_ver c m of
          Inl f \<Rightarrow> Inl f
        | Inr gs \<Rightarrow>
            if gs = OS_GUESS_UNKNOWN then Inr ''OS detection failed''
            else Inr (''OS Guess: '' @ the (os_strings gs))))"

text \<open>
  \<^verbatim>\<open>_print_text_header\<close>, lines 923 to 1006. \<^verbatim>\<open>PRIu64\<close> prints the version as
  an unsigned number, \<^verbatim>\<open>%d\<close> prints the counter as a signed one.
\<close>

definition print_text_header ::
    "detected_os_ver \<Rightarrow> ext \<Rightarrow> globals \<Rightarrow> metarecord \<Rightarrow> failure + string" where
  "print_text_header c x g m =
     (let path_line = ''Recycle bin path: '' @ apostrophe @
            g_filename_display_name x (filename m) @ apostrophe @ newline;
          version_line =
            (if version m = VERSION_NOT_FOUND c then ''Version: ??? (empty folder)'' @ newline
             else ''Version: '' @ dec (nat (version m mod 2 ^ 64)) @ newline);
          total_line =
            (if rtype m = RECYCLE_BIN_TYPE_FILE \<and> total_entry m \<noteq> 0 then
               ''Total entries ever existed: '' @ dec_int (sint (total_entry m)) @ newline
             else [])
      in case print_os_line c x g m of
           Inl f \<Rightarrow> Inl f
         | Inr os_line \<Rightarrow>
             let now = (if use_localtime g then g_date_time_new_now_local x
                        else g_date_time_new_now_utc x);
                 tzname = Option.bind now (\<lambda>d. g_date_time_format x d ''%Z'');
                 tznumeric = Option.bind now (\<lambda>d. g_date_time_format x d ''%z'');
                 headerline = g_strjoinv (delim g)
                   [Some ''Index'', Some ''Deleted Time'', Some ''Gone?'', Some ''Size'',
                    Some ''Path'', None]
             in Inr (path_line @ version_line @ total_line @ os_line @ newline @
                     ''Time zone: '' @ str_arg tzname @ '' ['' @ str_arg tznumeric @
                     '']'' @ newline @
                     newline @ headerline @ newline))"

text \<open>\<^verbatim>\<open>_print_xml_header\<close>, lines 1013 to 1046.\<close>

definition print_xml_header :: "ext \<Rightarrow> metarecord \<Rightarrow> string" where
  \<open>print_xml_header x m =
     ''<?xml version="1.0" encoding="UTF-8"?>'' @ newline @
     ''<recyclebin format="'' @
     (if rtype m = RECYCLE_BIN_TYPE_FILE then ''file'' else ''dir'') @ ''"'' @
     (if version m \<ge> 0 then '' version="'' @ dec_int (version m) @ ''"'' else []) @
     (if rtype m = RECYCLE_BIN_TYPE_FILE \<and> total_entry m > 0 then
        '' ever_existed="'' @ dec (unat (total_entry m)) @ ''"''
      else []) @
     ''>'' @ newline @
     ''  <filename><![CDATA['' @ g_filename_display_name x (filename m) @
     '']]></filename>'' @ newline\<close>

text \<open>\<^verbatim>\<open>_print_json_header\<close>, lines 1053 to 1076.\<close>

definition print_json_header :: "ext \<Rightarrow> metarecord \<Rightarrow> string" where
  \<open>print_json_header x m =
     ''{'' @ newline @ ''  "format": "'' @
     (if rtype m = RECYCLE_BIN_TYPE_FILE then ''file'' else ''dir'') @ ''",'' @ newline @
     (if version m \<ge> 0 then ''  "version": '' @ dec_int (version m) @ '','' @ newline
      else ''  "version": null,'' @ newline) @
     (if rtype m = RECYCLE_BIN_TYPE_FILE \<and> total_entry m > 0 then
        ''  "ever_existed": '' @ dec (unat (total_entry m)) @ '','' @ newline
      else []) @
     ''  "path": "'' @ json_escape x (g_filename_display_name x (filename m)) @ ''",'' @
     newline @ ''  "records": ['' @ newline\<close>

text \<open>
  \<^verbatim>\<open>_print_text_record\<close>, lines 1079 to 1119. The array \<^verbatim>\<open>header\<close> has six
  zeroed slots; \<^verbatim>\<open>header[0]\<close> is \<^verbatim>\<open>NULL\<close> when the index string of a per-item
  record is, \<^verbatim>\<open>header[1]\<close> when the time cannot be formatted, and
  \<^verbatim>\<open>g_strjoinv\<close> ends the line at the first slot that is \<^verbatim>\<open>NULL\<close>.
\<close>

definition print_text_record ::
    "ext \<Rightarrow> globals \<Rightarrow> metarecord \<Rightarrow> rbin_struct \<Rightarrow> string \<times> rbin_struct" where
  "print_text_record x g m record =
     (let header0 = (if rtype m = RECYCLE_BIN_TYPE_FILE then Some (dec (unat (index_n record)))
                     else index_s record);
          dt = (if use_localtime g then Option.bind (deltime record) (g_date_time_to_local x)
                else deltime record);
          header1 = Option.bind dt (\<lambda>d. g_date_time_format x d ''%F %T'');
          header2 = Some (gone_outtext x FORMAT_TEXT (gone record));
          header3 = Some (if filesize record = G_MAXUINT64 then ''???''
                          else dec (unat (filesize record)));
          src = (if legacy_encoding g \<noteq> None then raw_legacy_path record
                 else raw_uni_path record);
          (path, err) = conv_path_to_utf8_with_tmpl x src (legacy_encoding g) FORMAT_TEXT None
                          (error record);
          header4 = Some (case path of None \<Rightarrow> ''???'' | Some p \<Rightarrow> p);
          output = g_strjoinv (delim g) [header0, header1, header2, header3, header4, None]
      in (output @ newline, record\<lparr>error := err\<rparr>))"

text \<open>\<^verbatim>\<open>_print_xml_record\<close>, lines 1122 to 1181.\<close>

definition print_xml_record ::
    "ext \<Rightarrow> globals \<Rightarrow> metarecord \<Rightarrow> rbin_struct \<Rightarrow> string \<times> rbin_struct" where
  \<open>print_xml_record x g m record =
     (let s0 = ''  <record'';
          s1 = s0 @ (if rtype m = RECYCLE_BIN_TYPE_FILE then
                       '' index="'' @ dec (unat (index_n record)) @ ''"''
                     else '' index="'' @ str_arg (index_s record) @ ''"'');
          dt_str = (if use_localtime g then
                      Option.bind (Option.bind (deltime record) (g_date_time_to_local x))
                        (\<lambda>d. g_date_time_format x d ''%FT%T%z'')
                    else Option.bind (deltime record) (\<lambda>d. g_date_time_format x d ''%FT%TZ''));
          s2 = s1 @ '' time="'' @ str_arg dt_str @ ''"'';
          s3 = s2 @ '' gone="'' @ gone_outtext x FORMAT_XML (gone record) @ ''"'';
          s4 = (if filesize record = G_MAXUINT64 then s3 @ '' size="-1"''
                else s3 @ '' size="'' @ dec (unat (filesize record)) @ ''"'');
          src = (if legacy_encoding g \<noteq> None then raw_legacy_path record
                 else raw_uni_path record);
          (path, err) = conv_path_to_utf8_with_tmpl x src (legacy_encoding g) FORMAT_XML None
                          (error record);
          s5 = (case path of
                  Some p \<Rightarrow> s4 @ ''>'' @ newline @ ''    <path><![CDATA['' @ p @
                            '']]></path>'' @ newline @ ''  </record>'' @ newline
                | None \<Rightarrow> s4 @ ''>'' @ newline @ ''    <path/>'' @ newline @
                            ''  </record>'' @ newline)
      in (s5, record\<lparr>error := err\<rparr>))\<close>

text \<open>\<^verbatim>\<open>_print_json_record\<close>, lines 1184 to 1239.\<close>

definition print_json_record ::
    "ext \<Rightarrow> globals \<Rightarrow> metarecord \<Rightarrow> rbin_struct \<Rightarrow> string \<times> rbin_struct" where
  \<open>print_json_record x g m record =
     (let s0 = ''    {'';
          s1 = s0 @ (if rtype m = RECYCLE_BIN_TYPE_FILE then
                       ''"index": '' @ dec (unat (index_n record))
                     else ''"index": "'' @ str_arg (index_s record) @ ''"'');
          dt_str = (if use_localtime g then
                      Option.bind (Option.bind (deltime record) (g_date_time_to_local x))
                        (\<lambda>d. g_date_time_format x d ''%FT%T%z'')
                    else Option.bind (deltime record) (\<lambda>d. g_date_time_format x d ''%FT%TZ''));
          s2 = s1 @ '', "time": "'' @ str_arg dt_str @ ''"'';
          s3 = s2 @ '', "gone": '' @ gone_outtext x FORMAT_JSON (gone record);
          s4 = (if filesize record = G_MAXUINT64 then s3 @ '', "size": null''
                else s3 @ '', "size": '' @ dec (unat (filesize record)));
          src = (if legacy_encoding g \<noteq> None then raw_legacy_path record
                 else raw_uni_path record);
          (path, err) = conv_path_to_utf8_with_tmpl x src (legacy_encoding g) FORMAT_JSON
                          (Some (json_escape x)) (error record);
          s5 = (case path of
                  Some p \<Rightarrow> s4 @ '', "path": "'' @ p @ ''"},'' @ newline
                | None \<Rightarrow> s4 @ '', "path": null},'' @ newline)
      in (s5, record\<lparr>error := err\<rparr>))\<close>

text \<open>\<^verbatim>\<open>_print_xml_footer\<close> and \<^verbatim>\<open>_print_json_footer\<close>, lines 1242 to 1253.\<close>

definition print_xml_footer :: string where
  "print_xml_footer = ''</recyclebin>'' @ newline"

definition print_json_footer :: string where
  "print_json_footer = ''  ]'' @ newline @ ''}'' @ newline"

text \<open>
  \<^verbatim>\<open>g_ptr_array_foreach\<close> over the records with a record function: the texts in
  order, and the records as the calls leave them.
\<close>

fun foreach_record ::
    "(rbin_struct \<Rightarrow> string \<times> rbin_struct) \<Rightarrow> rbin_struct list \<Rightarrow> string \<times> rbin_struct list" where
  "foreach_record f [] = ([], [])"
| "foreach_record f (r # rs) =
     (let (out1, r') = f r; (out2, rs') = foreach_record f rs in (out1 @ out2, r' # rs'))"

text \<open>
  \<^verbatim>\<open>dump_content\<close>, lines 1261 to 1304: the result, the text written and the
  metadata afterwards. A header or footer function that is \<^verbatim>\<open>NULL\<close> writes
  nothing.
\<close>

definition dump_content ::
    "detected_os_ver \<Rightarrow> ext \<Rightarrow> globals \<Rightarrow> metarecord \<Rightarrow>
     failure + gboolean \<times> string \<times> metarecord" where
  "dump_content c x g m =
     (if output_loc g \<noteq> None \<and> get_tempfile x \<noteq> None then
        Inr (FALSE (the (get_tempfile x)), [], m)
      else
        (case
           (case output_format g of
              FORMAT_TEXT \<Rightarrow>
                Inr (if no_heading g then Inr [] else print_text_header c x g m,
                     print_text_record x g m, [])
            | FORMAT_XML \<Rightarrow>
                Inr (Inr (print_xml_header x m), print_xml_record x g m, print_xml_footer)
            | FORMAT_JSON \<Rightarrow>
                Inr (Inr (print_json_header x m), print_json_record x g m, print_json_footer)
            | FORMAT_UNKNOWN \<Rightarrow> Inl Assert_not_reached)
         of
           Inl f \<Rightarrow> Inl f
         | Inr (print_header, print_record_func, print_footer) \<Rightarrow>
             (case print_header of
                Inl f \<Rightarrow> Inl f
              | Inr header_text \<Rightarrow>
                  let (records_text, rs) = foreach_record print_record_func (records m);
                      out = header_text @ records_text @ print_footer;
                      m' = m\<lparr>records := rs\<rparr>
                  in (case output_loc g of
                        Some loc \<Rightarrow>
                          (case clean_tempfile x loc of
                             Some e \<Rightarrow> Inr (FALSE e, out, m')
                           | None \<Rightarrow> Inr (TRUE, out, m'))
                      | None \<Rightarrow> Inr (TRUE, out, m')))))"

section \<open>Exit code\<close>

text \<open>
  The codes of the domain \<^verbatim>\<open>R2_FATAL_ERROR\<close> that \<^verbatim>\<open>utils.c\<close> compares with;
  their values come from a header, so they are a parameter.
\<close>

record r2_fatal_error =
  R2_FATAL_ERROR_ILLEGAL_DATA :: int
  R2_FATAL_ERROR_TEMPFILE :: int
  R2_FATAL_ERROR_LIVE_UNSUPPORTED :: int

text \<open>Values for evaluating at a concrete input; the statements hold for every assignment.\<close>

definition r2_fatal_values :: r2_fatal_error where
  "r2_fatal_values =
     \<lparr>R2_FATAL_ERROR_ILLEGAL_DATA = 0, R2_FATAL_ERROR_TEMPFILE = 1,
      R2_FATAL_ERROR_LIVE_UNSUPPORTED = 2\<rparr>"

text \<open>
  \<^verbatim>\<open>_get_exit_code\<close>, lines 1338 to 1368. What the functions of this section
  write to the standard error is not part of the model.
\<close>

definition get_exit_code :: "r2_fatal_error \<Rightarrow> gerror option \<Rightarrow> exitcode" where
  "get_exit_code k err =
     (case err of
        None \<Rightarrow> EXIT_OK
      | Some e \<Rightarrow>
          if domain e = G_OPTION_ERROR then EXIT_ERR_ARG
          else if domain e = G_FILE_ERROR then EXIT_ERR_OPEN_FILE
          else if g_error_matches err R2_FATAL_ERROR (R2_FATAL_ERROR_ILLEGAL_DATA k) then
            EXIT_ERR_ILLEGAL_DATA
          else if g_error_matches err R2_FATAL_ERROR (R2_FATAL_ERROR_TEMPFILE k) then
            EXIT_ERR_WRITE_FILE
          else if g_error_matches err R2_FATAL_ERROR (R2_FATAL_ERROR_LIVE_UNSUPPORTED k) then
            EXIT_ERR_NO_LIVE
          else EXIT_ERR_UNHANDLED)"

text \<open>\<^verbatim>\<open>_dump_rec_error\<close>, lines 1307 to 1330: the flag afterwards.\<close>

definition dump_rec_error :: "rbin_struct \<Rightarrow> bool \<Rightarrow> bool" where
  "dump_rec_error record flag =
     (if error record = None then flag
      else if \<not> flag then True
      else flag)"

text \<open>\<^verbatim>\<open>_has_record_error\<close>, lines 1371 to 1405.\<close>

definition has_record_error :: "metarecord \<Rightarrow> bool" where
  "has_record_error m =
     (let flag = False;
          flag = (if length (invalid_records m) \<noteq> 0 then True else flag)
      in fold dump_rec_error (records m) flag)"

text \<open>
  \<^verbatim>\<open>rifiuti_cleanup\<close>, lines 1413 to 1446: the exit code. The argument is the
  pointer to the global error pointer; the pointer itself may be \<^verbatim>\<open>NULL\<close>.
\<close>

definition rifiuti_cleanup ::
    "r2_fatal_error \<Rightarrow> metarecord \<Rightarrow> gerror option option \<Rightarrow> exitcode" where
  "rifiuti_cleanup k m error_ptr =
     (case error_ptr of
        None \<Rightarrow> EXIT_ERR_UNHANDLED
      | Some err \<Rightarrow>
          let code = get_exit_code k err in
          if has_record_error m \<and> code = EXIT_OK then EXIT_ERR_DUBIOUS_DATA else code)"

section \<open>Path conversion\<close>

text \<open>
  Modelled from the spec: \<^verbatim>\<open>conv_path_to_utf8_with_tmpl\<close> is defined in
  \<^verbatim>\<open>utils-conv.c\<close>, which is not among the sources. The definitions of this
  section follow section 4.2 of the specification. The record functions of
  \<^verbatim>\<open>utils.c\<close> take the conversion as a parameter; this one is used where they are
  evaluated at a concrete input.
\<close>

text \<open>
  Modelled from the spec: "UTF-16LE input: decode strictly; an unpaired surrogate or
  truncated code unit is a conversion failure." A byte left over after the last whole
  code unit is a truncated code unit.
\<close>

fun utf16le_units :: "byte list \<Rightarrow> nat list option" where
  "utf16le_units [] = Some []"
| "utf16le_units [b] = None"
| "utf16le_units (lo # hi # bs) =
     (case utf16le_units bs of
        None \<Rightarrow> None
      | Some us \<Rightarrow> Some ((unat lo + 256 * unat hi) # us))"

text \<open>
  Modelled from the spec: the code points of a sequence of UTF-16 code units; a
  surrogate without its partner is a failure.
\<close>

fun utf16_code_points :: "nat list \<Rightarrow> nat list option" where
  "utf16_code_points [] = Some []"
| "utf16_code_points (u # us) =
     (if u < 0xD800 \<or> 0xDFFF < u then
        (case utf16_code_points us of None \<Rightarrow> None | Some cs \<Rightarrow> Some (u # cs))
      else if 0xDBFF < u then None
      else
        (case us of
           [] \<Rightarrow> None
         | v # vs \<Rightarrow>
             if v < 0xDC00 \<or> 0xDFFF < v then None
             else
               (case utf16_code_points vs of
                  None \<Rightarrow> None
                | Some cs \<Rightarrow> Some ((0x10000 + (u - 0xD800) * 0x400 + (v - 0xDC00)) # cs))))"

text \<open>Modelled from the spec: the result is UTF-8 text; the UTF-8 bytes of a code point.\<close>

definition utf8_encode :: "nat \<Rightarrow> string" where
  "utf8_encode cp =
     (if cp < 0x80 then [char_of cp]
      else if cp < 0x800 then
        [char_of (0xC0 + cp div 0x40), char_of (0x80 + cp mod 0x40)]
      else if cp < 0x10000 then
        [char_of (0xE0 + cp div 0x1000), char_of (0x80 + cp div 0x40 mod 0x40),
         char_of (0x80 + cp mod 0x40)]
      else
        [char_of (0xF0 + cp div 0x40000), char_of (0x80 + cp div 0x1000 mod 0x40),
         char_of (0x80 + cp div 0x40 mod 0x40), char_of (0x80 + cp mod 0x40)])"

text \<open>Modelled from the spec: the conversion of a UTF-16LE byte sequence into UTF-8 text.\<close>

definition utf16le_to_utf8 :: "byte list \<Rightarrow> string option" where
  "utf16le_to_utf8 bs =
     (case utf16le_units bs of
        None \<Rightarrow> None
      | Some us \<Rightarrow>
          (case utf16_code_points us of
             None \<Rightarrow> None
           | Some cs \<Rightarrow> Some (concat (map utf8_encode cs))))"

text \<open>
  Modelled from the spec: the "distinguished error" of a conversion failure. Its code
  and message are declared in a header that is not among the sources; the values here
  stand for them.
\<close>

definition R2_REC_ERROR_CONV_PATH :: gerror where
  "R2_REC_ERROR_CONV_PATH =
     \<lparr>domain = R2_REC_ERROR, code = 0, message = ''path conversion failure''\<rparr>"

text \<open>
  Modelled from the spec: \<^verbatim>\<open>conv_path_to_utf8_with_tmpl\<close> of \<^verbatim>\<open>utils-conv.c\<close>.
  The specification, 4.2: the declared source encoding is UTF-16LE or the legacy
  codepage the caller supplied; UTF-16LE is decoded strictly; a legacy path is decoded
  with the codepage's mapping table, here the parameter \<open>codepage\<close>; a "conversion
  failure ... yields a distinguished error, not a best-effort guess", and the caller
  substitutes a placeholder. The specification, 3 and 4.1: such a failure is recorded
  on the record as its decode error, and the record stays in the set. An absent path
  gives no text and no error; an error already stored is kept.
\<close>

definition spec_conv_path_to_utf8 ::
    "(string \<Rightarrow> byte list \<Rightarrow> string option) \<Rightarrow> byte list option \<Rightarrow> string option \<Rightarrow>
     out_fmt \<Rightarrow> (string \<Rightarrow> string) option \<Rightarrow> gerror option \<Rightarrow> string option \<times> gerror option" where
  "spec_conv_path_to_utf8 codepage path from_enc format func err =
     (case path of
        None \<Rightarrow> (None, err)
      | Some bytes \<Rightarrow>
          (case (case from_enc of
                   None \<Rightarrow> utf16le_to_utf8 bytes
                 | Some enc \<Rightarrow> codepage enc bytes)
           of
             None \<Rightarrow> (None, (case err of None \<Rightarrow> Some R2_REC_ERROR_CONV_PATH | Some e \<Rightarrow> Some e))
           | Some text \<Rightarrow> (Some (case func of None \<Rightarrow> text | Some f \<Rightarrow> f text), err)))"

section \<open>Sample inputs\<close>

definition sample_record :: rbin_struct where
  "sample_record =
     \<lparr>index_n = 1, index_s = None, deltime = Some (GDateTime 0 0), gone = 0, filesize = 42,
      raw_uni_path = Some [0x41, 0x00], raw_legacy_path = Some [0x41], error = None\<rparr>"

definition sample_info2 :: metarecord where
  "sample_info2 =
     \<lparr>rtype = RECYCLE_BIN_TYPE_FILE, filename = ''INFO2'', version = 5, recordsize = 800,
      total_entry = 1, fill_junk = True, records = [sample_record], invalid_records = []\<rparr>"

text \<open>
  Collaborators for evaluating the functions at concrete inputs. The path conversion
  is the one modelled from the specification, with a codepage table that decodes the
  ASCII range only; \<^verbatim>\<open>CP1252\<close> is the one codepage the self-check accepts. The
  other functions are simple stand-ins.
\<close>

definition sample_codepage :: "string \<Rightarrow> byte list \<Rightarrow> string option" where
  "sample_codepage enc bytes =
     (if list_all (\<lambda>b. b < 0x80) bytes then Some (map (\<lambda>b. char_of (unat b)) bytes) else None)"

definition sample_ext :: ext where
  "sample_ext =
     \<lparr>friendly_name = (\<lambda>f. case f of FORMAT_TEXT \<Rightarrow> ''TSV format''
          | FORMAT_XML \<Rightarrow> ''XML format'' | FORMAT_JSON \<Rightarrow> ''JSON format''
          | FORMAT_UNKNOWN \<Rightarrow> []),
      gone_outtext = (\<lambda>f i. if i = 0 then ''no'' else ''yes''),
      filter_escapes = (\<lambda>s. s),
      json_escape = (\<lambda>s. s),
      conv_path_to_utf8_with_tmpl = spec_conv_path_to_utf8 sample_codepage,
      enc_is_ascii_compatible = (\<lambda>enc.
        if enc = ''CP1252'' then (True, None)
        else (False, Some \<lparr>domain = G_CONVERT_ERROR, code = G_CONVERT_ERROR_NO_CONVERSION,
                           message = ''no conversion''\<rparr>)),
      g_date_time_format = (\<lambda>dt f. Some (dec_int (unix_seconds dt))),
      g_date_time_to_local = (\<lambda>dt. Some dt),
      g_date_time_new_now_local = Some (GDateTime 0 0),
      g_date_time_new_now_utc = Some (GDateTime 0 0),
      g_filename_display_name = (\<lambda>s. s),
      windows_product_name = None,
      get_tempfile = None,
      clean_tempfile = (\<lambda>loc. None)\<rparr>"

text \<open>The globals after an option parsing that saw no option: text output, tabs.\<close>

definition sample_globals :: globals where
  "sample_globals = initial_globals\<lparr>output_format := FORMAT_TEXT, delim := Some tab\<rparr>"

text \<open>A per-item metadata, and a record whose UTF-16LE path lost its last byte.\<close>

definition sample_dir :: metarecord where
  "sample_dir =
     \<lparr>rtype = RECYCLE_BIN_TYPE_DIR, filename = ''$Recycle.Bin'', version = 2, recordsize = 0,
      total_entry = 0, fill_junk = False, records = [], invalid_records = []\<rparr>"

definition truncated_record :: rbin_struct where
  "truncated_record =
     \<lparr>index_n = 1, index_s = None, deltime = Some (GDateTime 0 0), gone = 0, filesize = 42,
      raw_uni_path = Some [0x41, 0x00, 0x42], raw_legacy_path = None, error = None\<rparr>"

section \<open>Verified properties\<close>

subsection \<open>The classifier on flat files\<close>

text \<open>
  C4. For a flat-file metadata that bears the mid-era tag \<^verbatim>\<open>VERSION_ME_03\<close>, the
  classifier tests in this order: a record size of 280 gives Windows ME; otherwise an
  empty record set gives "Windows 2000, XP or 2003"; otherwise the junk flag gives
  Windows 2000 when set and Windows XP or 2003 when unset. The tag is a label of the
  \<^verbatim>\<open>switch\<close>, so it differs from the three labels before it.
\<close>

theorem C4_mid_era_order:
  assumes "rtype m = RECYCLE_BIN_TYPE_FILE"
    and "version m = VERSION_ME_03 c"
    and "VERSION_ME_03 c \<notin> {VERSION_WIN95 c, VERSION_WIN98 c, VERSION_NT4 c}"
  shows "guess_windows_ver c m =
    Inr (if recordsize m = 280 then OS_GUESS_ME
         else if records m = [] then OS_GUESS_2K_03
         else if fill_junk m then OS_GUESS_2K else OS_GUESS_XP_03)"
  using assms by (simp add: guess_windows_ver_def)

theorem C4_mid_era_order_witness:
  "rtype sample_info2 = RECYCLE_BIN_TYPE_FILE
   \<and> version sample_info2 = VERSION_ME_03 os_ver_values
   \<and> VERSION_ME_03 os_ver_values \<notin>
       {VERSION_WIN95 os_ver_values, VERSION_WIN98 os_ver_values, VERSION_NT4 os_ver_values}
   \<and> guess_windows_ver os_ver_values sample_info2 = Inr OS_GUESS_2K
   \<and> guess_windows_ver os_ver_values (sample_info2\<lparr>fill_junk := False\<rparr>) = Inr OS_GUESS_XP_03
   \<and> guess_windows_ver os_ver_values (sample_info2\<lparr>records := []\<rparr>) = Inr OS_GUESS_2K_03
   \<and> guess_windows_ver os_ver_values (sample_info2\<lparr>recordsize := 280\<rparr>) = Inr OS_GUESS_ME"
  using C4_mid_era_order [of sample_info2 os_ver_values]
    C4_mid_era_order [of "sample_info2\<lparr>fill_junk := False\<rparr>" os_ver_values]
    C4_mid_era_order [of "sample_info2\<lparr>records := []\<rparr>" os_ver_values]
    C4_mid_era_order [of "sample_info2\<lparr>recordsize := 280\<rparr>" os_ver_values]
  by (simp add: sample_info2_def os_ver_values_def)

text \<open>
  C1. The claim has the classifier read the junk flag when the record size is 280 and
  a record exists. The source tests the size first: under the mid-era tag a record size
  of 280 gives Windows ME whatever the record set and the junk flag are, and the junk
  flag chooses between Windows 2000 and Windows XP or 2003 only when the size is not
  280 and the record set is not empty. A flat file of size 280 that bears another tag is
  not Windows ME either: with the Windows 95 tag the answer is Windows 95.
\<close>

theorem C1_record_size_280:
  assumes "rtype m = RECYCLE_BIN_TYPE_FILE"
    and "version m = VERSION_ME_03 c"
    and "VERSION_ME_03 c \<notin> {VERSION_WIN95 c, VERSION_WIN98 c, VERSION_NT4 c}"
  shows "(recordsize m = 280 \<longrightarrow> guess_windows_ver c m = Inr OS_GUESS_ME)
    \<and> (recordsize m \<noteq> 280 \<and> records m \<noteq> [] \<longrightarrow>
         guess_windows_ver c m = Inr (if fill_junk m then OS_GUESS_2K else OS_GUESS_XP_03))"
  using assms by (simp add: guess_windows_ver_def)

theorem C1_record_size_280_witness:
  "rtype sample_info2 = RECYCLE_BIN_TYPE_FILE
   \<and> version sample_info2 = VERSION_ME_03 os_ver_values
   \<and> VERSION_ME_03 os_ver_values \<notin>
       {VERSION_WIN95 os_ver_values, VERSION_WIN98 os_ver_values, VERSION_NT4 os_ver_values}
   \<and> recordsize (sample_info2\<lparr>recordsize := 280\<rparr>) = 280
   \<and> guess_windows_ver os_ver_values (sample_info2\<lparr>recordsize := 280\<rparr>) = Inr OS_GUESS_ME
   \<and> recordsize sample_info2 \<noteq> 280 \<and> records sample_info2 \<noteq> []
   \<and> fill_junk sample_info2
   \<and> guess_windows_ver os_ver_values sample_info2 = Inr OS_GUESS_2K"
  using C1_record_size_280 [of sample_info2 os_ver_values]
    C1_record_size_280 [of "sample_info2\<lparr>recordsize := 280\<rparr>" os_ver_values]
  by (simp add: sample_info2_def os_ver_values_def)

text \<open>
  The claim fails at a flat file of record size 280 with one record and the junk flag
  set (the answer is Windows ME, not Windows 2000), with the flag unset (not Windows XP
  or 2003), and at an empty flat file of record size 280 with the Windows 95 tag.
\<close>

theorem C1_counterexample:
  "rtype (sample_info2\<lparr>recordsize := 280\<rparr>) = RECYCLE_BIN_TYPE_FILE
   \<and> recordsize (sample_info2\<lparr>recordsize := 280\<rparr>) = 280
   \<and> records (sample_info2\<lparr>recordsize := 280\<rparr>) \<noteq> []
   \<and> fill_junk (sample_info2\<lparr>recordsize := 280\<rparr>)
   \<and> guess_windows_ver os_ver_values (sample_info2\<lparr>recordsize := 280\<rparr>) \<noteq> Inr OS_GUESS_2K
   \<and> guess_windows_ver os_ver_values (sample_info2\<lparr>recordsize := 280\<rparr>) = Inr OS_GUESS_ME
   \<and> guess_windows_ver os_ver_values
        (sample_info2\<lparr>recordsize := 280, fill_junk := False\<rparr>) \<noteq> Inr OS_GUESS_XP_03
   \<and> guess_windows_ver os_ver_values
        (sample_info2\<lparr>recordsize := 280, version := 0, records := []\<rparr>) = Inr OS_GUESS_95"
  by (simp add: guess_windows_ver_def sample_info2_def os_ver_values_def)

subsection \<open>The classifier on per-item directories\<close>

text \<open>
  C5. For a per-item metadata the classifier answers Vista to 8.1 for the Vista tag,
  Windows 10 or above for the Windows 10 tag and unknown for every other value; it
  never aborts there. The text header writes the unknown answer as "OS detection
  failed" and is itself written in full: no failure comes out of it. The two tags are
  labels of one \<^verbatim>\<open>switch\<close>, so they differ.
\<close>

theorem C5_per_item:
  assumes "rtype m = RECYCLE_BIN_TYPE_DIR"
    and "VERSION_VISTA c \<noteq> VERSION_WIN10 c"
  shows "(version m = VERSION_VISTA c \<longrightarrow> guess_windows_ver c m = Inr OS_GUESS_VISTA)
    \<and> (version m = VERSION_WIN10 c \<longrightarrow> guess_windows_ver c m = Inr OS_GUESS_10)
    \<and> (version m \<notin> {VERSION_VISTA c, VERSION_WIN10 c} \<longrightarrow>
         guess_windows_ver c m = Inr OS_GUESS_UNKNOWN)
    \<and> (guess_windows_ver c m = Inr OS_GUESS_UNKNOWN \<and> \<not> live_mode g \<longrightarrow>
         print_os_line c x g m = Inr ''OS detection failed'')
    \<and> (\<exists>line. print_os_line c x g m = Inr line)
    \<and> (\<exists>text. print_text_header c x g m = Inr text)"
  using assms
  by (auto simp add: guess_windows_ver_def print_os_line_def print_text_header_def Let_def
      split: option.splits)

theorem C5_per_item_witness:
  "rtype sample_dir = RECYCLE_BIN_TYPE_DIR
   \<and> VERSION_VISTA os_ver_values \<noteq> VERSION_WIN10 os_ver_values
   \<and> version (sample_dir\<lparr>version := 1\<rparr>) = VERSION_VISTA os_ver_values
   \<and> guess_windows_ver os_ver_values (sample_dir\<lparr>version := 1\<rparr>) = Inr OS_GUESS_VISTA
   \<and> version sample_dir = VERSION_WIN10 os_ver_values
   \<and> guess_windows_ver os_ver_values sample_dir = Inr OS_GUESS_10
   \<and> version (sample_dir\<lparr>version := 7\<rparr>)
        \<notin> {VERSION_VISTA os_ver_values, VERSION_WIN10 os_ver_values}
   \<and> guess_windows_ver os_ver_values (sample_dir\<lparr>version := 7\<rparr>) = Inr OS_GUESS_UNKNOWN
   \<and> \<not> live_mode sample_globals
   \<and> print_os_line os_ver_values sample_ext sample_globals (sample_dir\<lparr>version := 7\<rparr>)
        = Inr ''OS detection failed''"
  using C5_per_item [of sample_dir os_ver_values sample_globals sample_ext]
    C5_per_item [of "sample_dir\<lparr>version := 1\<rparr>" os_ver_values sample_globals sample_ext]
    C5_per_item [of "sample_dir\<lparr>version := 7\<rparr>" os_ver_values sample_globals sample_ext]
  by (simp add: sample_dir_def os_ver_values_def sample_globals_def initial_globals_def)

subsection \<open>The exit code\<close>

lemma fold_dump_rec_error:
  "fold dump_rec_error rs flag = (flag \<or> (\<exists>r \<in> set rs. error r \<noteq> None))"
  by (induction rs arbitrary: flag) (auto simp add: dump_rec_error_def)

lemma has_record_error_iff:
  "has_record_error m = (invalid_records m \<noteq> [] \<or> (\<exists>r \<in> set (records m). error r \<noteq> None))"
  by (simp add: has_record_error_def fold_dump_rec_error)

lemma get_exit_code_Some: "get_exit_code k (Some e) \<notin> {EXIT_OK, EXIT_ERR_DUBIOUS_DATA}"
  by (simp add: get_exit_code_def)

text \<open>
  C3. With the global error unset, a record that carries an error or a binding in the
  table of unreadable entries makes \<^verbatim>\<open>rifiuti_cleanup\<close> return the code for
  dubious data, which is not the code of success; without either it returns success.
  With a fatal error set, the code is the one \<^verbatim>\<open>_get_exit_code\<close> gives for the
  error, and it is never the code for dubious data.
\<close>

theorem C3_dubious_data:
  "((\<exists>r \<in> set (records m). error r \<noteq> None) \<or> invalid_records m \<noteq> [] \<longrightarrow>
      rifiuti_cleanup k m (Some None) = EXIT_ERR_DUBIOUS_DATA)
   \<and> EXIT_ERR_DUBIOUS_DATA \<noteq> EXIT_OK
   \<and> (\<not> (\<exists>r \<in> set (records m). error r \<noteq> None) \<and> invalid_records m = [] \<longrightarrow>
      rifiuti_cleanup k m (Some None) = EXIT_OK)
   \<and> rifiuti_cleanup k m (Some (Some e)) = get_exit_code k (Some e)
   \<and> rifiuti_cleanup k m (Some (Some e)) \<noteq> EXIT_ERR_DUBIOUS_DATA"
  using get_exit_code_Some [of k e]
  by (auto simp add: rifiuti_cleanup_def has_record_error_iff Let_def get_exit_code_def)

theorem C3_dubious_data_witness:
  "(\<exists>r \<in> set (records (sample_info2\<lparr>records :=
        [truncated_record\<lparr>error := Some R2_REC_ERROR_CONV_PATH\<rparr>]\<rparr>)). error r \<noteq> None)
   \<and> rifiuti_cleanup r2_fatal_values
        (sample_info2\<lparr>records := [truncated_record\<lparr>error := Some R2_REC_ERROR_CONV_PATH\<rparr>]\<rparr>)
        (Some None) = EXIT_ERR_DUBIOUS_DATA
   \<and> rifiuti_cleanup r2_fatal_values sample_info2 (Some None) = EXIT_OK
   \<and> rifiuti_cleanup r2_fatal_values
        (sample_info2\<lparr>records := [truncated_record\<lparr>error := Some R2_REC_ERROR_CONV_PATH\<rparr>]\<rparr>)
        (Some (Some \<lparr>domain = G_FILE_ERROR, code = 4, message = ''does not exist''\<rparr>))
      = EXIT_ERR_OPEN_FILE"
  using C3_dubious_data [of "sample_info2\<lparr>records :=
        [truncated_record\<lparr>error := Some R2_REC_ERROR_CONV_PATH\<rparr>]\<rparr>" r2_fatal_values
      "\<lparr>domain = G_FILE_ERROR, code = 4, message = ''does not exist''\<rparr>"]
    C3_dubious_data [of sample_info2 r2_fatal_values
      "\<lparr>domain = G_FILE_ERROR, code = 4, message = ''does not exist''\<rparr>"]
  by (simp add: sample_info2_def sample_record_def truncated_record_def get_exit_code_def)

subsection \<open>The output format\<close>

lemma set_out_format_keeps:
  "output_format g \<noteq> FORMAT_UNKNOWN \<Longrightarrow>
     output_format (snd (set_out_format x d g)) = output_format g"
  by (simp add: set_out_format_def)

lemma fold_set_out_format_keeps:
  "output_format g \<noteq> FORMAT_UNKNOWN \<Longrightarrow>
     output_format (fold (\<lambda>d g. snd (set_out_format x d g)) ds g) = output_format g"
  by (induction ds arbitrary: g) (simp_all add: set_out_format_keeps)

lemma fold_set_out_format_first:
  assumes u: "output_format g = FORMAT_UNKNOWN" and n: "FORMAT_UNKNOWN \<notin> set ds"
  shows "output_format (fold (\<lambda>d g. snd (set_out_format x d g)) ds g) =
       (case ds of [] \<Rightarrow> FORMAT_UNKNOWN | d # rest \<Rightarrow> d)"
proof (cases ds)
  case Nil
  then show ?thesis using u by simp
next
  case (Cons d rest)
  have "output_format (snd (set_out_format x d g)) = d"
    using u by (simp add: set_out_format_def)
  moreover have "d \<noteq> FORMAT_UNKNOWN" using n Cons by auto
  ultimately have "output_format (fold (\<lambda>d g. snd (set_out_format x d g)) rest
      (snd (set_out_format x d g))) = d"
    using fold_set_out_format_keeps [of "snd (set_out_format x d g)" x rest] by simp
  then show ?thesis using Cons by simp
qed

text \<open>
  C10. \<^verbatim>\<open>_set_out_format\<close> stores the format when none is stored, succeeds
  without a change when the stored format is the requested one, and otherwise fails
  with an option error and leaves the globals as they were. Each of the four option
  callbacks requests its format through it: \<^verbatim>\<open>--format\<close> the format its value
  names (and an option error, with nothing stored, for any other value),
  \<^verbatim>\<open>--no-heading\<close> and \<^verbatim>\<open>--delimiter\<close> text, \<^verbatim>\<open>-x\<close> and \<^verbatim>\<open>--xml\<close> XML;
  for each of them the first request is stored, the same request again succeeds, and a
  different one fails and leaves the stored format as it was. So a stored format
  survives every later request; after a sequence of requests that starts with no format
  stored, the format is the first one requested, and text when there was no request,
  once \<^verbatim>\<open>_set_def_output_opts\<close> has run.
\<close>

theorem C10_output_format_write_once:
  "(output_format g = FORMAT_UNKNOWN \<longrightarrow>
      set_out_format x desired g = (TRUE, g\<lparr>output_format := desired\<rparr>))
   \<and> (output_format g = desired \<longrightarrow> set_out_format x desired g = (TRUE, g))
   \<and> (output_format g \<notin> {FORMAT_UNKNOWN, desired} \<longrightarrow>
        (\<exists>e. set_out_format x desired g = (FALSE e, g)
           \<and> domain e = G_OPTION_ERROR \<and> code e = G_OPTION_ERROR_FAILED))
   \<and> (output_format g \<noteq> FORMAT_UNKNOWN \<longrightarrow>
        output_format (fold (\<lambda>d g. snd (set_out_format x d g)) ds g) = output_format g
        \<and> output_format (snd (set_opt_format x name g)) = output_format g
        \<and> output_format (snd (set_opt_noheading x g)) = output_format g
        \<and> output_format (snd (set_opt_delim x name g)) = output_format g
        \<and> output_format (snd (option_deprecated x name g)) = output_format g)
   \<and> (output_format g = FORMAT_UNKNOWN \<and> FORMAT_UNKNOWN \<notin> set ds \<longrightarrow>
        output_format (snd (set_def_output_opts (fold (\<lambda>d g. snd (set_out_format x d g)) ds g)))
          = (case ds of [] \<Rightarrow> FORMAT_TEXT | d # rest \<Rightarrow> d))
   \<and> fst (set_def_output_opts g) = TRUE
   \<and> output_format (snd (set_def_output_opts g)) =
        (if output_format g = FORMAT_UNKNOWN then FORMAT_TEXT else output_format g)
   \<and> ((name, F) \<in> {(''text'', FORMAT_TEXT), (''tsv'', FORMAT_TEXT), (''csv'', FORMAT_TEXT),
          (''xml'', FORMAT_XML), (''json'', FORMAT_JSON)} \<longrightarrow>
        (output_format g = FORMAT_UNKNOWN \<longrightarrow>
           set_opt_format x name g = (TRUE, g\<lparr>output_format := F\<rparr>))
        \<and> (output_format g = F \<longrightarrow> set_opt_format x name g = (TRUE, g))
        \<and> (output_format g \<notin> {FORMAT_UNKNOWN, F} \<longrightarrow>
             (\<exists>e. set_opt_format x name g = (FALSE e, g)
                \<and> domain e = G_OPTION_ERROR \<and> code e = G_OPTION_ERROR_FAILED)))
   \<and> (name \<notin> {''text'', ''tsv'', ''csv'', ''xml'', ''json''} \<longrightarrow>
        (\<exists>e. set_opt_format x name g = (FALSE e, g)
           \<and> domain e = G_OPTION_ERROR \<and> code e = G_OPTION_ERROR_BAD_VALUE))
   \<and> (output_format g = FORMAT_UNKNOWN \<longrightarrow>
        set_opt_noheading x g = (TRUE, g\<lparr>no_heading := True, output_format := FORMAT_TEXT\<rparr>))
   \<and> (output_format g = FORMAT_TEXT \<longrightarrow>
        set_opt_noheading x g = (TRUE, g\<lparr>no_heading := True\<rparr>))
   \<and> (output_format g \<notin> {FORMAT_UNKNOWN, FORMAT_TEXT} \<longrightarrow>
        (\<exists>e. set_opt_noheading x g = (FALSE e, g\<lparr>no_heading := True\<rparr>)
           \<and> domain e = G_OPTION_ERROR \<and> code e = G_OPTION_ERROR_FAILED))
   \<and> (seen_delim g \<longrightarrow>
        (\<exists>e. set_opt_delim x name g = (FALSE e, g)
           \<and> domain e = G_OPTION_ERROR \<and> code e = G_OPTION_ERROR_FAILED))
   \<and> (\<not> seen_delim g \<and> output_format g = FORMAT_UNKNOWN \<longrightarrow>
        set_opt_delim x name g =
          (TRUE, g\<lparr>seen_delim := True,
                    delim := Some (if name \<noteq> [] then filter_escapes x name else []),
                    output_format := FORMAT_TEXT\<rparr>))
   \<and> (\<not> seen_delim g \<and> output_format g = FORMAT_TEXT \<longrightarrow>
        set_opt_delim x name g =
          (TRUE, g\<lparr>seen_delim := True,
                    delim := Some (if name \<noteq> [] then filter_escapes x name else [])\<rparr>))
   \<and> (\<not> seen_delim g \<and> output_format g \<notin> {FORMAT_UNKNOWN, FORMAT_TEXT} \<longrightarrow>
        (\<exists>e. set_opt_delim x name g =
           (FALSE e, g\<lparr>seen_delim := True,
                       delim := Some (if name \<noteq> [] then filter_escapes x name else [])\<rparr>)
           \<and> domain e = G_OPTION_ERROR \<and> code e = G_OPTION_ERROR_FAILED))
   \<and> (name \<in> {''-x'', ''--xml''} \<longrightarrow>
        (output_format g = FORMAT_UNKNOWN \<longrightarrow>
           option_deprecated x name g = (TRUE, g\<lparr>output_format := FORMAT_XML\<rparr>))
        \<and> (output_format g = FORMAT_XML \<longrightarrow> option_deprecated x name g = (TRUE, g))
        \<and> (output_format g \<notin> {FORMAT_UNKNOWN, FORMAT_XML} \<longrightarrow>
             (\<exists>e. option_deprecated x name g = (FALSE e, g)
                \<and> domain e = G_OPTION_ERROR \<and> code e = G_OPTION_ERROR_FAILED)))
   \<and> (name \<notin> {''-x'', ''--xml''} \<longrightarrow> option_deprecated x name g = (TRUE, g))"
proof -
  have a: "output_format g = FORMAT_UNKNOWN \<longrightarrow>
      set_out_format x desired g = (TRUE, g\<lparr>output_format := desired\<rparr>)"
    by (simp add: set_out_format_def)
  have b: "output_format g = desired \<longrightarrow> set_out_format x desired g = (TRUE, g)"
    by (simp add: set_out_format_def)
  have c: "output_format g \<notin> {FORMAT_UNKNOWN, desired} \<longrightarrow>
        (\<exists>e. set_out_format x desired g = (FALSE e, g)
           \<and> domain e = G_OPTION_ERROR \<and> code e = G_OPTION_ERROR_FAILED)"
    by (auto simp add: set_out_format_def)
  have d: "output_format g \<noteq> FORMAT_UNKNOWN \<longrightarrow>
        output_format (fold (\<lambda>d g. snd (set_out_format x d g)) ds g) = output_format g
        \<and> output_format (snd (set_opt_format x name g)) = output_format g
        \<and> output_format (snd (set_opt_noheading x g)) = output_format g
        \<and> output_format (snd (set_opt_delim x name g)) = output_format g
        \<and> output_format (snd (option_deprecated x name g)) = output_format g"
    by (simp add: fold_set_out_format_keeps set_out_format_keeps set_opt_format_def
        set_opt_noheading_def set_opt_delim_def option_deprecated_def)
  have df: "output_format (snd (set_def_output_opts g)) =
        (if output_format g = FORMAT_UNKNOWN then FORMAT_TEXT else output_format g)" for g
    by (simp add: set_def_output_opts_def Let_def)
  have dt: "fst (set_def_output_opts g) = TRUE"
    by (simp add: set_def_output_opts_def Let_def)
  have e: "output_format g = FORMAT_UNKNOWN \<and> FORMAT_UNKNOWN \<notin> set ds \<longrightarrow>
        output_format (snd (set_def_output_opts (fold (\<lambda>d g. snd (set_out_format x d g)) ds g)))
          = (case ds of [] \<Rightarrow> FORMAT_TEXT | d # rest \<Rightarrow> d)"
    using fold_set_out_format_first [of g ds x] by (auto simp add: df split: list.splits)
  have f: "(name, F) \<in> {(''text'', FORMAT_TEXT), (''tsv'', FORMAT_TEXT), (''csv'', FORMAT_TEXT),
          (''xml'', FORMAT_XML), (''json'', FORMAT_JSON)} \<longrightarrow>
        (output_format g = FORMAT_UNKNOWN \<longrightarrow>
           set_opt_format x name g = (TRUE, g\<lparr>output_format := F\<rparr>))
        \<and> (output_format g = F \<longrightarrow> set_opt_format x name g = (TRUE, g))
        \<and> (output_format g \<notin> {FORMAT_UNKNOWN, F} \<longrightarrow>
             (\<exists>e. set_opt_format x name g = (FALSE e, g)
                \<and> domain e = G_OPTION_ERROR \<and> code e = G_OPTION_ERROR_FAILED))"
    by (auto simp add: set_opt_format_def set_out_format_def)
  have f': "name \<notin> {''text'', ''tsv'', ''csv'', ''xml'', ''json''} \<longrightarrow>
        (\<exists>e. set_opt_format x name g = (FALSE e, g)
           \<and> domain e = G_OPTION_ERROR \<and> code e = G_OPTION_ERROR_BAD_VALUE)"
    by (simp add: set_opt_format_def)
  have n1: "output_format g = FORMAT_UNKNOWN \<longrightarrow>
        set_opt_noheading x g = (TRUE, g\<lparr>no_heading := True, output_format := FORMAT_TEXT\<rparr>)"
    by (simp add: set_opt_noheading_def set_out_format_def)
  have n2: "output_format g = FORMAT_TEXT \<longrightarrow>
        set_opt_noheading x g = (TRUE, g\<lparr>no_heading := True\<rparr>)"
    by (simp add: set_opt_noheading_def set_out_format_def)
  have n3: "output_format g \<notin> {FORMAT_UNKNOWN, FORMAT_TEXT} \<longrightarrow>
        (\<exists>e. set_opt_noheading x g = (FALSE e, g\<lparr>no_heading := True\<rparr>)
           \<and> domain e = G_OPTION_ERROR \<and> code e = G_OPTION_ERROR_FAILED)"
    by (simp add: set_opt_noheading_def set_out_format_def)
  have t1: "seen_delim g \<longrightarrow>
        (\<exists>e. set_opt_delim x name g = (FALSE e, g)
           \<and> domain e = G_OPTION_ERROR \<and> code e = G_OPTION_ERROR_FAILED)"
    by (simp add: set_opt_delim_def)
  have t2: "\<not> seen_delim g \<and> output_format g = FORMAT_UNKNOWN \<longrightarrow>
        set_opt_delim x name g =
          (TRUE, g\<lparr>seen_delim := True,
                    delim := Some (if name \<noteq> [] then filter_escapes x name else []),
                    output_format := FORMAT_TEXT\<rparr>)"
    by (simp add: set_opt_delim_def set_out_format_def)
  have t3: "\<not> seen_delim g \<and> output_format g = FORMAT_TEXT \<longrightarrow>
        set_opt_delim x name g =
          (TRUE, g\<lparr>seen_delim := True,
                    delim := Some (if name \<noteq> [] then filter_escapes x name else [])\<rparr>)"
    by (simp add: set_opt_delim_def set_out_format_def)
  have t4: "\<not> seen_delim g \<and> output_format g \<notin> {FORMAT_UNKNOWN, FORMAT_TEXT} \<longrightarrow>
        (\<exists>e. set_opt_delim x name g =
           (FALSE e, g\<lparr>seen_delim := True,
                       delim := Some (if name \<noteq> [] then filter_escapes x name else [])\<rparr>)
           \<and> domain e = G_OPTION_ERROR \<and> code e = G_OPTION_ERROR_FAILED)"
    by (simp add: set_opt_delim_def set_out_format_def)
  have o1: "name \<in> {''-x'', ''--xml''} \<longrightarrow>
        (output_format g = FORMAT_UNKNOWN \<longrightarrow>
           option_deprecated x name g = (TRUE, g\<lparr>output_format := FORMAT_XML\<rparr>))
        \<and> (output_format g = FORMAT_XML \<longrightarrow> option_deprecated x name g = (TRUE, g))
        \<and> (output_format g \<notin> {FORMAT_UNKNOWN, FORMAT_XML} \<longrightarrow>
             (\<exists>e. option_deprecated x name g = (FALSE e, g)
                \<and> domain e = G_OPTION_ERROR \<and> code e = G_OPTION_ERROR_FAILED))"
    by (auto simp add: option_deprecated_def set_out_format_def)
  have o2: "name \<notin> {''-x'', ''--xml''} \<longrightarrow> option_deprecated x name g = (TRUE, g)"
    by (simp add: option_deprecated_def)
  note df' = df [of g]
  show ?thesis
    by (intro conjI) (fact a b c d e dt df' f f' n1 n2 n3 t1 t2 t3 t4 o1 o2)+
qed

theorem C10_output_format_write_once_witness:
  "set_out_format sample_ext FORMAT_XML initial_globals
     = (TRUE, initial_globals\<lparr>output_format := FORMAT_XML\<rparr>)
   \<and> set_out_format sample_ext FORMAT_XML (initial_globals\<lparr>output_format := FORMAT_XML\<rparr>)
     = (TRUE, initial_globals\<lparr>output_format := FORMAT_XML\<rparr>)
   \<and> fst (set_out_format sample_ext FORMAT_JSON (initial_globals\<lparr>output_format := FORMAT_XML\<rparr>))
     \<noteq> TRUE
   \<and> snd (set_out_format sample_ext FORMAT_JSON (initial_globals\<lparr>output_format := FORMAT_XML\<rparr>))
     = initial_globals\<lparr>output_format := FORMAT_XML\<rparr>
   \<and> output_format (snd (set_def_output_opts
        (fold (\<lambda>d g. snd (set_out_format sample_ext d g)) [FORMAT_XML, FORMAT_JSON, FORMAT_XML]
           initial_globals))) = FORMAT_XML
   \<and> output_format (snd (set_def_output_opts initial_globals)) = FORMAT_TEXT
   \<and> set_opt_format sample_ext ''xml'' initial_globals
     = (TRUE, initial_globals\<lparr>output_format := FORMAT_XML\<rparr>)
   \<and> fst (set_opt_format sample_ext ''json'' (initial_globals\<lparr>output_format := FORMAT_XML\<rparr>))
     \<noteq> TRUE
   \<and> snd (set_opt_format sample_ext ''json'' (initial_globals\<lparr>output_format := FORMAT_XML\<rparr>))
     = initial_globals\<lparr>output_format := FORMAT_XML\<rparr>
   \<and> option_deprecated sample_ext ''-x'' initial_globals
     = (TRUE, initial_globals\<lparr>output_format := FORMAT_XML\<rparr>)
   \<and> set_opt_noheading sample_ext initial_globals
     = (TRUE, initial_globals\<lparr>no_heading := True, output_format := FORMAT_TEXT\<rparr>)"
  using C10_output_format_write_once [where g = initial_globals and x = sample_ext
      and desired = FORMAT_XML and ds = "[FORMAT_XML, FORMAT_JSON, FORMAT_XML]"
      and name = "''xml''" and F = FORMAT_XML]
    C10_output_format_write_once [where g = "initial_globals\<lparr>output_format := FORMAT_XML\<rparr>"
      and x = sample_ext and desired = FORMAT_XML and ds = "[]" and name = "''xml''"
      and F = FORMAT_XML]
    C10_output_format_write_once [where g = "initial_globals\<lparr>output_format := FORMAT_XML\<rparr>"
      and x = sample_ext and desired = FORMAT_JSON and ds = "[]" and name = "''json''"
      and F = FORMAT_JSON]
    C10_output_format_write_once [where g = initial_globals and x = sample_ext
      and desired = FORMAT_XML and ds = "[]" and name = "''-x''" and F = FORMAT_XML]
  by (auto simp add: initial_globals_def)

subsection \<open>The legacy encoding\<close>

text \<open>
  C7. The claim has the stored encoding unset after every rejected option. The source
  leaves it as it was: a second encoding option is rejected, and the encoding that the
  first one stored stays stored. What holds: an option after the first, an empty
  identifier, and an identifier whose self-check fails with "no conversion", "illegal
  sequence" or "partial input" are each rejected with an option error; a rejected
  identifier is never stored and the stored encoding does not change; the identifier is
  stored exactly when it is the first encoding option, is not empty and passes the
  self-check. The callback reads no record; when it runs relative to the scan is not
  part of this model.
\<close>

theorem C7_legacy_encoding:
  "(seen_encoding g \<longrightarrow>
      (\<exists>e. check_legacy_encoding x enc g = Inr (FALSE e, g)
         \<and> domain e = G_OPTION_ERROR \<and> code e = G_OPTION_ERROR_FAILED))
   \<and> (\<not> seen_encoding g \<and> enc = [] \<longrightarrow>
      (\<exists>e. check_legacy_encoding x enc g = Inr (FALSE e, g\<lparr>seen_encoding := True\<rparr>)
         \<and> domain e = G_OPTION_ERROR \<and> code e = G_OPTION_ERROR_BAD_VALUE))
   \<and> (\<not> seen_encoding g \<and> enc \<noteq> [] \<and> \<not> fst (enc_is_ascii_compatible x enc)
       \<and> (g_error_matches (snd (enc_is_ascii_compatible x enc)) G_CONVERT_ERROR
             G_CONVERT_ERROR_NO_CONVERSION
          \<or> g_error_matches (snd (enc_is_ascii_compatible x enc)) G_CONVERT_ERROR
             G_CONVERT_ERROR_ILLEGAL_SEQUENCE
          \<or> g_error_matches (snd (enc_is_ascii_compatible x enc)) G_CONVERT_ERROR
             G_CONVERT_ERROR_PARTIAL_INPUT) \<longrightarrow>
      (\<exists>e. check_legacy_encoding x enc g = Inr (FALSE e, g\<lparr>seen_encoding := True\<rparr>)
         \<and> domain e = G_OPTION_ERROR \<and> code e = G_OPTION_ERROR_BAD_VALUE))
   \<and> (\<not> seen_encoding g \<and> enc \<noteq> [] \<and> fst (enc_is_ascii_compatible x enc) \<longrightarrow>
      check_legacy_encoding x enc g
        = Inr (TRUE, g\<lparr>seen_encoding := True, legacy_encoding := Some enc\<rparr>))
   \<and> (\<forall>res g'. check_legacy_encoding x enc g = Inr (res, g') \<longrightarrow>
        legacy_encoding g' = (if res = TRUE then Some enc else legacy_encoding g)
        \<and> (res = TRUE \<longleftrightarrow>
             \<not> seen_encoding g \<and> enc \<noteq> [] \<and> fst (enc_is_ascii_compatible x enc)))"
  by (cases "enc_is_ascii_compatible x enc")
    (auto simp add: check_legacy_encoding_def Let_def split: if_splits bool.splits)

theorem C7_legacy_encoding_witness:
  "check_legacy_encoding sample_ext ''CP1252'' initial_globals
     = Inr (TRUE, initial_globals\<lparr>seen_encoding := True, legacy_encoding := Some ''CP1252''\<rparr>)
   \<and> fst (projr (check_legacy_encoding sample_ext ''CP0'' initial_globals)) \<noteq> TRUE
   \<and> snd (projr (check_legacy_encoding sample_ext ''CP0'' initial_globals))
       = initial_globals\<lparr>seen_encoding := True\<rparr>
   \<and> fst (projr (check_legacy_encoding sample_ext [] initial_globals)) \<noteq> TRUE
   \<and> snd (projr (check_legacy_encoding sample_ext [] initial_globals))
       = initial_globals\<lparr>seen_encoding := True\<rparr>
   \<and> legacy_encoding (initial_globals\<lparr>seen_encoding := True\<rparr>) = None"
  using C7_legacy_encoding [of initial_globals sample_ext "''CP1252''"]
    C7_legacy_encoding [of initial_globals sample_ext "''CP0''"]
    C7_legacy_encoding [of initial_globals sample_ext "[]"]
  by (auto simp add: initial_globals_def sample_ext_def g_error_matches_def)

text \<open>
  The claim fails at two encoding options in a row: the first stores \<^verbatim>\<open>CP1252\<close>,
  the second is rejected, and the stored encoding is then \<^verbatim>\<open>CP1252\<close>, not unset.
\<close>

theorem C7_counterexample:
  "check_legacy_encoding sample_ext ''CP1252'' initial_globals
     = Inr (TRUE, initial_globals\<lparr>seen_encoding := True, legacy_encoding := Some ''CP1252''\<rparr>)
   \<and> check_legacy_encoding sample_ext ''CP1252''
       (initial_globals\<lparr>seen_encoding := True, legacy_encoding := Some ''CP1252''\<rparr>)
     = Inr (FALSE \<lparr>domain = G_OPTION_ERROR, code = G_OPTION_ERROR_FAILED,
                   message = ''Multiple encoding options disallowed.''\<rparr>,
            initial_globals\<lparr>seen_encoding := True, legacy_encoding := Some ''CP1252''\<rparr>)
   \<and> legacy_encoding (initial_globals\<lparr>seen_encoding := True, legacy_encoding := Some ''CP1252''\<rparr>)
     \<noteq> None"
  by (simp add: check_legacy_encoding_def initial_globals_def sample_ext_def)

subsection \<open>The deletion time\<close>

lemma sdiv_pos_divisor:
  "0 < l \<Longrightarrow> (k::int) sdiv l = (if 0 \<le> k then k div l else - ((- k) div l))"
  by (auto simp add: signed_divide_int_def sgn_if)

lemma mod_of_negative:
  assumes "- m \<le> x" and "x < 0"
  shows "(x::int) mod m = x + m"
proof -
  have "x mod m = (x + m) mod m" by simp
  also have "\<dots> = x + m" using assms by (intro mod_pos_pos_trivial) linarith+
  finally show ?thesis .
qed

text \<open>The subtraction of the epoch in 64 bits: exact, or off by \<open>2 ^ 64\<close> when it wraps.\<close>

lemma sint_epoch_diff:
  fixes w :: "64 word"
  shows "sint (w - 116444736000000000) =
    (if - 9223372036854775808 \<le> sint w - 116444736000000000
     then sint w - 116444736000000000
     else sint w - 116444736000000000 + 18446744073709551616)"
proof -
  have lo: "- 9223372036854775808 \<le> sint w" using sint_ge [of w] by simp
  have hi: "sint w < 9223372036854775808" using sint_lt [of w] by simp
  have "sint (w - 116444736000000000) =
      signed_take_bit 63 (sint w - 116444736000000000)"
    by (simp add: sint_word_ariths)
  also have "\<dots> = (sint w - 116444736000000000 + 9223372036854775808) mod 18446744073709551616
      - 9223372036854775808"
    by (simp add: signed_take_bit_eq_take_bit_shift take_bit_eq_mod)
  finally have eq: "sint (w - 116444736000000000) =
      (sint w - 116444736000000000 + 9223372036854775808) mod 18446744073709551616
      - 9223372036854775808" .
  show ?thesis
  proof (cases "- 9223372036854775808 \<le> sint w - 116444736000000000")
    case True
    then have "(sint w - 116444736000000000 + 9223372036854775808) mod 18446744073709551616
        = sint w - 116444736000000000 + 9223372036854775808"
      using hi by (simp add: mod_pos_pos_trivial)
    then show ?thesis using eq True by simp
  next
    case False
    then have "(sint w - 116444736000000000 + 9223372036854775808) mod 18446744073709551616
        = sint w - 116444736000000000 + 9223372036854775808 + 18446744073709551616"
      using lo by (intro mod_of_negative) simp_all
    then show ?thesis using eq False by simp
  qed
qed

lemma sint_seconds:
  assumes "- 9223372036854775808 \<le> k" and "k < 9223372036854775808"
  shows "sint (word_of_int (k sdiv 10000000) :: 64 word) = k sdiv 10000000"
proof -
  have "- 9223372036854775808 \<le> k sdiv 10000000 \<and> k sdiv 10000000 < 9223372036854775808"
    using assms by (simp add: sdiv_pos_divisor, linarith?)
  then show ?thesis
    by (simp add: signed_of_int signed_take_bit_int_eq_self)
qed

text \<open>
  C6. The claim has an instant returned for every tick count. glib has no
  \<^verbatim>\<open>GDateTime\<close> outside of the years 1 to 9999, and \<^verbatim>\<open>win_filetime_to_gdatetime\<close>
  returns what glib returns. What holds, for every 64-bit tick count: with \<open>s\<close> the
  truncated quotient of the ticks less 116444736000000000 by 10000000, the function
  returns the UTC instant \<open>s\<close> seconds from the Unix epoch when \<open>s\<close> lies in glib's
  range, and \<^verbatim>\<open>NULL\<close> otherwise. Where the 64-bit subtraction wraps around, the
  quotient the code computes and \<open>s\<close> are both outside of the range.
\<close>

theorem C6_filetime_seconds:
  "win_filetime_to_gdatetime w =
     (let s = (sint w - 116444736000000000) sdiv 10000000
      in if - 62135596800 \<le> s \<and> s \<le> 253402300799 then Some (GDateTime s 0) else None)"
proof (cases "- 9223372036854775808 \<le> sint w - 116444736000000000")
  case True
  have hi: "sint w < 9223372036854775808" using sint_lt [of w] by simp
  have d: "sint (w - 116444736000000000) = sint w - 116444736000000000"
    using True by (simp add: sint_epoch_diff)
  have "sint (word_of_int ((sint w - 116444736000000000) sdiv 10000000) :: 64 word)
      = (sint w - 116444736000000000) sdiv 10000000"
    using True hi by (intro sint_seconds) simp_all
  then show ?thesis
    by (simp add: win_filetime_to_gdatetime_def g_date_time_new_from_unix_utc_def d Let_def)
next
  case False
  have lo: "- 9223372036854775808 \<le> sint w" using sint_ge [of w] by simp
  define k where "k = sint w - 116444736000000000 + 18446744073709551616"
  have d: "sint (w - 116444736000000000) = k"
    using False by (simp add: sint_epoch_diff k_def)
  have kb: "9106927300854775808 \<le> k" "k < 9223372036854775808"
    using False lo by (simp_all add: k_def)
  have s: "sint (word_of_int (k sdiv 10000000) :: 64 word) = k sdiv 10000000"
    using kb by (intro sint_seconds) simp_all
  have big: "253402300799 < k sdiv 10000000"
    using kb by (simp add: sdiv_pos_divisor, linarith?)
  have small: "(sint w - 116444736000000000) sdiv 10000000 < - 62135596800"
    using False by (simp add: sdiv_pos_divisor, linarith?)
  show ?thesis
    using big small
    by (simp add: win_filetime_to_gdatetime_def g_date_time_new_from_unix_utc_def d s Let_def)
qed

theorem C6_filetime_seconds_witness:
  "win_filetime_to_gdatetime 133000000000000000 = Some (GDateTime 1655526400 0)
   \<and> win_filetime_to_gdatetime 18446744073709551615 = Some (GDateTime (- 11644473600) 0)
   \<and> win_filetime_to_gdatetime 9223372036854775808 = None"
  using C6_filetime_seconds [of 133000000000000000]
    C6_filetime_seconds [of 18446744073709551615]
    C6_filetime_seconds [of 9223372036854775808]
  by (simp add: signed_divide_int_def Let_def)

text \<open>
  The claim fails at the largest tick count, \<open>2 ^ 63 - 1\<close>: the second count is
  910692730085, in the year 30828, and the function returns \<^verbatim>\<open>NULL\<close>.
\<close>

theorem C6_counterexample:
  "win_filetime_to_gdatetime 9223372036854775807 \<noteq>
     Some (GDateTime ((9223372036854775807 - 116444736000000000) sdiv 10000000) 0)
   \<and> win_filetime_to_gdatetime 9223372036854775807 = None"
  by (simp add: win_filetime_to_gdatetime_def g_date_time_new_from_unix_utc_def
      signed_divide_int_def)

subsection \<open>Serialization: what a record function does to the record\<close>

lemma snd_print_text_record:
  "snd (print_text_record x g m r) =
     r\<lparr>error := snd (conv_path_to_utf8_with_tmpl x
        (if legacy_encoding g \<noteq> None then raw_legacy_path r else raw_uni_path r)
        (legacy_encoding g) FORMAT_TEXT None (error r))\<rparr>"
  by (simp add: print_text_record_def Let_def case_prod_unfold)

lemma snd_print_xml_record:
  "snd (print_xml_record x g m r) =
     r\<lparr>error := snd (conv_path_to_utf8_with_tmpl x
        (if legacy_encoding g \<noteq> None then raw_legacy_path r else raw_uni_path r)
        (legacy_encoding g) FORMAT_XML None (error r))\<rparr>"
  by (simp add: print_xml_record_def Let_def case_prod_unfold)

lemma snd_print_json_record:
  "snd (print_json_record x g m r) =
     r\<lparr>error := snd (conv_path_to_utf8_with_tmpl x
        (if legacy_encoding g \<noteq> None then raw_legacy_path r else raw_uni_path r)
        (legacy_encoding g) FORMAT_JSON (Some (json_escape x)) (error r))\<rparr>"
  by (simp add: print_json_record_def Let_def case_prod_unfold)

lemma snd_foreach_record: "snd (foreach_record f rs) = map (\<lambda>r. snd (f r)) rs"
  by (induction rs) (simp_all add: Let_def case_prod_unfold)

lemma dump_content_tempfile:
  assumes "output_loc g \<noteq> None \<and> get_tempfile x \<noteq> None"
  shows "dump_content c x g m = Inr (FALSE (the (get_tempfile x)), [], m)"
  using assms by (simp add: dump_content_def)

lemma dump_content_records:
  assumes "\<not> (output_loc g \<noteq> None \<and> get_tempfile x \<noteq> None)"
    and "dump_content c x g m = Inr (res, out, m')"
  shows "output_format g \<noteq> FORMAT_UNKNOWN \<and>
    m' = m\<lparr>records := snd (foreach_record
      (case output_format g of FORMAT_TEXT \<Rightarrow> print_text_record x g m
       | FORMAT_XML \<Rightarrow> print_xml_record x g m | _ \<Rightarrow> print_json_record x g m) (records m))\<rparr>"
proof (cases "output_format g")
  case FORMAT_UNKNOWN
  then show ?thesis using assms by (auto simp add: dump_content_def)
next
  case FORMAT_TEXT
  then show ?thesis using assms
    by (auto simp add: dump_content_def Let_def case_prod_unfold
        split: sum.splits option.splits if_splits)
next
  case FORMAT_XML
  then show ?thesis using assms
    by (auto simp add: dump_content_def Let_def case_prod_unfold split: option.splits)
next
  case FORMAT_JSON
  then show ?thesis using assms
    by (auto simp add: dump_content_def Let_def case_prod_unfold split: option.splits)
qed

text \<open>The sample inputs, evaluated.\<close>

lemma char_of_65: "char_of (65 :: nat) = CHR ''A''"
  by code_simp

lemma char_of_66: "char_of (66 :: nat) = CHR ''B''"
  by code_simp

lemma utf16le_A: "utf16le_to_utf8 [0x41, 0x00] = Some ''A''"
  by (simp add: utf16le_to_utf8_def utf8_encode_def char_of_65)

lemma utf16le_truncated: "utf16le_to_utf8 [0x41, 0x00, 0x42] = None"
  by (simp add: utf16le_to_utf8_def)

lemma sample_codepage_B: "sample_codepage enc [0x42] = Some ''B''"
  by (simp add: sample_codepage_def char_of_66)

lemma dec_1: "dec (Suc 0) = ''1''"
  by (simp add: dec.simps)

lemma dec_42: "dec 42 = ''42''"
  by (simp add: dec.simps)

lemma dec_int_0: "dec_int 0 = ''0''"
  by (simp add: dec_int_def dec.simps)

lemma g_strjoinv_5:
  "g_strjoinv d [Some a, Some b, Some c, Some e, Some f, None] =
     a @ (case d of None \<Rightarrow> [] | Some s \<Rightarrow> s) @ b @ (case d of None \<Rightarrow> [] | Some s \<Rightarrow> s) @ c @
     (case d of None \<Rightarrow> [] | Some s \<Rightarrow> s) @ e @ (case d of None \<Rightarrow> [] | Some s \<Rightarrow> s) @ f"
  by (simp add: g_strjoinv_def)

lemma print_text_truncated:
  "print_text_record sample_ext (sample_globals\<lparr>no_heading := True\<rparr>)
       (sample_info2\<lparr>records := [truncated_record]\<rparr>) truncated_record
     = (''1'' @ tab @ ''0'' @ tab @ ''no'' @ tab @ ''42'' @ tab @ ''???'' @ newline,
        truncated_record\<lparr>error := Some R2_REC_ERROR_CONV_PATH\<rparr>)"
  by (simp add: print_text_record_def sample_ext_def sample_globals_def initial_globals_def
      sample_info2_def truncated_record_def spec_conv_path_to_utf8_def utf16le_truncated
      dec_1 dec_42 dec_int_0 g_strjoinv_5 Let_def G_MAXUINT64_def)

lemma dump_content_truncated:
  "dump_content os_ver_values sample_ext (sample_globals\<lparr>no_heading := True\<rparr>)
       (sample_info2\<lparr>records := [truncated_record]\<rparr>)
     = Inr (TRUE, ''1'' @ tab @ ''0'' @ tab @ ''no'' @ tab @ ''42'' @ tab @ ''???'' @ newline,
            sample_info2\<lparr>records := [truncated_record\<lparr>error := Some R2_REC_ERROR_CONV_PATH\<rparr>]\<rparr>)"
proof -
  have g: "output_loc (sample_globals\<lparr>no_heading := True\<rparr>) = None"
    "output_format (sample_globals\<lparr>no_heading := True\<rparr>) = FORMAT_TEXT"
    "no_heading (sample_globals\<lparr>no_heading := True\<rparr>)"
    by (simp_all add: sample_globals_def initial_globals_def)
  have r: "records (sample_info2\<lparr>records := [truncated_record]\<rparr>) = [truncated_record]"
    by simp
  show ?thesis
    unfolding dump_content_def g r
    by (simp add: print_text_truncated del: append.simps)
qed

text \<open>
  C2. The claim has every field of every record unchanged by serialization, the
  attached decode error included. Each record function hands the address of the
  record's error to the path conversion, and what the conversion leaves there stays on
  the record. What holds: \<^verbatim>\<open>dump_content\<close>, in each of the three formats, leaves
  the metadata and every field of every record as they were, except the decode error of
  each record, which becomes what the conversion of the selected raw path leaves in it;
  when the temporary file cannot be made, nothing is serialized and nothing changes.
\<close>

theorem C2_serialization_frame:
  assumes "dump_content c x g m = Inr (res, out, m')"
  shows "(output_loc g \<noteq> None \<and> get_tempfile x \<noteq> None \<longrightarrow> m' = m)
    \<and> (\<not> (output_loc g \<noteq> None \<and> get_tempfile x \<noteq> None) \<longrightarrow>
         m' = m\<lparr>records := map (\<lambda>r. r\<lparr>error := snd (conv_path_to_utf8_with_tmpl x
             (if legacy_encoding g \<noteq> None then raw_legacy_path r else raw_uni_path r)
             (legacy_encoding g) (output_format g)
             (if output_format g = FORMAT_JSON then Some (json_escape x) else None)
             (error r))\<rparr>) (records m)\<rparr>)"
proof (cases "output_loc g \<noteq> None \<and> get_tempfile x \<noteq> None")
  case True
  then show ?thesis using assms by (simp add: dump_content_tempfile)
next
  case False
  note r = dump_content_records [OF False assms]
  show ?thesis
  proof (cases "output_format g")
    case FORMAT_UNKNOWN
    then show ?thesis using r by simp
  next
    case FORMAT_TEXT
    then show ?thesis using r False by (auto simp add: snd_foreach_record snd_print_text_record)
  next
    case FORMAT_XML
    then show ?thesis using r False by (auto simp add: snd_foreach_record snd_print_xml_record)
  next
    case FORMAT_JSON
    then show ?thesis using r False by (auto simp add: snd_foreach_record snd_print_json_record)
  qed
qed

theorem C2_serialization_frame_witness:
  "dump_content os_ver_values sample_ext (sample_globals\<lparr>no_heading := True\<rparr>)
       (sample_info2\<lparr>records := [truncated_record]\<rparr>)
     = Inr (TRUE, ''1'' @ tab @ ''0'' @ tab @ ''no'' @ tab @ ''42'' @ tab @ ''???'' @ newline,
            sample_info2\<lparr>records := [truncated_record\<lparr>error := Some R2_REC_ERROR_CONV_PATH\<rparr>]\<rparr>)
   \<and> sample_info2\<lparr>records := [truncated_record\<lparr>error := Some R2_REC_ERROR_CONV_PATH\<rparr>]\<rparr>
     = sample_info2\<lparr>records :=
         [truncated_record\<lparr>error := snd (conv_path_to_utf8_with_tmpl sample_ext
            (raw_uni_path truncated_record) None FORMAT_TEXT None (error truncated_record))\<rparr>]\<rparr>"
  using dump_content_truncated C2_serialization_frame [OF dump_content_truncated]
  by (simp add: sample_globals_def initial_globals_def)

text \<open>
  The claim fails at a record whose UTF-16LE path has an odd number of bytes and whose
  decode error is unset: serialization as text leaves the conversion error on it.
\<close>

theorem C2_counterexample:
  "error truncated_record = None
   \<and> dump_content os_ver_values sample_ext (sample_globals\<lparr>no_heading := True\<rparr>)
       (sample_info2\<lparr>records := [truncated_record]\<rparr>)
     = Inr (TRUE, ''1'' @ tab @ ''0'' @ tab @ ''no'' @ tab @ ''42'' @ tab @ ''???'' @ newline,
            sample_info2\<lparr>records := [truncated_record\<lparr>error := Some R2_REC_ERROR_CONV_PATH\<rparr>]\<rparr>)
   \<and> error (truncated_record\<lparr>error := Some R2_REC_ERROR_CONV_PATH\<rparr>) \<noteq> error truncated_record"
  using dump_content_truncated by (simp add: truncated_record_def)

subsection \<open>Serialization: the source of the path\<close>

lemma text_other_path:
  "legacy_encoding g = None \<Longrightarrow> print_text_record x g m (r\<lparr>raw_legacy_path := p\<rparr>)
     = (fst (print_text_record x g m r), (snd (print_text_record x g m r))\<lparr>raw_legacy_path := p\<rparr>)"
  "legacy_encoding g \<noteq> None \<Longrightarrow> print_text_record x g m (r\<lparr>raw_uni_path := p\<rparr>)
     = (fst (print_text_record x g m r), (snd (print_text_record x g m r))\<lparr>raw_uni_path := p\<rparr>)"
  by (simp_all add: print_text_record_def Let_def case_prod_unfold del: append.simps
      split del: if_split cong: if_cong option.case_cong)

lemma xml_other_path:
  "legacy_encoding g = None \<Longrightarrow> print_xml_record x g m (r\<lparr>raw_legacy_path := p\<rparr>)
     = (fst (print_xml_record x g m r), (snd (print_xml_record x g m r))\<lparr>raw_legacy_path := p\<rparr>)"
  "legacy_encoding g \<noteq> None \<Longrightarrow> print_xml_record x g m (r\<lparr>raw_uni_path := p\<rparr>)
     = (fst (print_xml_record x g m r), (snd (print_xml_record x g m r))\<lparr>raw_uni_path := p\<rparr>)"
  by (simp_all add: print_xml_record_def Let_def case_prod_unfold del: append.simps
      split del: if_split cong: if_cong option.case_cong)

lemma json_other_path:
  "legacy_encoding g = None \<Longrightarrow> print_json_record x g m (r\<lparr>raw_legacy_path := p\<rparr>)
     = (fst (print_json_record x g m r), (snd (print_json_record x g m r))\<lparr>raw_legacy_path := p\<rparr>)"
  "legacy_encoding g \<noteq> None \<Longrightarrow> print_json_record x g m (r\<lparr>raw_uni_path := p\<rparr>)
     = (fst (print_json_record x g m r), (snd (print_json_record x g m r))\<lparr>raw_uni_path := p\<rparr>)"
  by (simp_all add: print_json_record_def Let_def case_prod_unfold del: append.simps
      split del: if_split cong: if_cong option.case_cong)

text \<open>
  A record function gives the same result when the conversion is replaced by one that
  ignores the source it is handed and converts the selected path: the selected path is
  the only source the conversion is asked for.
\<close>

lemma text_same_conversion:
  "print_text_record x g m r = print_text_record
     (x\<lparr>conv_path_to_utf8_with_tmpl := \<lambda>src. conv_path_to_utf8_with_tmpl x
        (if legacy_encoding g \<noteq> None then raw_legacy_path r else raw_uni_path r)\<rparr>) g m r"
  by (simp add: print_text_record_def Let_def case_prod_unfold del: append.simps
      split del: if_split cong: if_cong option.case_cong)

lemma xml_same_conversion:
  "print_xml_record x g m r = print_xml_record
     (x\<lparr>conv_path_to_utf8_with_tmpl := \<lambda>src. conv_path_to_utf8_with_tmpl x
        (if legacy_encoding g \<noteq> None then raw_legacy_path r else raw_uni_path r)\<rparr>) g m r"
  by (simp add: print_xml_record_def Let_def case_prod_unfold del: append.simps
      split del: if_split cong: if_cong option.case_cong)

lemma json_same_conversion:
  "print_json_record x g m r = print_json_record
     (x\<lparr>conv_path_to_utf8_with_tmpl := \<lambda>src. conv_path_to_utf8_with_tmpl x
        (if legacy_encoding g \<noteq> None then raw_legacy_path r else raw_uni_path r)\<rparr>) g m r"
  by (simp add: print_json_record_def Let_def case_prod_unfold del: append.simps
      split del: if_split cong: if_cong option.case_cong)

text \<open>
  C8. In each of the three formats: when no legacy codepage is configured, the
  conversion is asked for the raw Unicode path, with no encoding, and the raw legacy
  path has no part in the result (another legacy path changes neither the text nor the
  error); when a codepage is configured, the conversion is asked for the raw legacy
  path, with that codepage, and the raw Unicode path has no part in the result.
\<close>

theorem C8_conversion_source:
  "(legacy_encoding g = None \<longrightarrow>
      snd (print_text_record x g m r) = r\<lparr>error := snd (conv_path_to_utf8_with_tmpl x
          (raw_uni_path r) None FORMAT_TEXT None (error r))\<rparr>
      \<and> snd (print_xml_record x g m r) = r\<lparr>error := snd (conv_path_to_utf8_with_tmpl x
          (raw_uni_path r) None FORMAT_XML None (error r))\<rparr>
      \<and> snd (print_json_record x g m r) = r\<lparr>error := snd (conv_path_to_utf8_with_tmpl x
          (raw_uni_path r) None FORMAT_JSON (Some (json_escape x)) (error r))\<rparr>
      \<and> print_text_record x g m r = print_text_record
          (x\<lparr>conv_path_to_utf8_with_tmpl :=
               \<lambda>src. conv_path_to_utf8_with_tmpl x (raw_uni_path r)\<rparr>) g m r
      \<and> print_xml_record x g m r = print_xml_record
          (x\<lparr>conv_path_to_utf8_with_tmpl :=
               \<lambda>src. conv_path_to_utf8_with_tmpl x (raw_uni_path r)\<rparr>) g m r
      \<and> print_json_record x g m r = print_json_record
          (x\<lparr>conv_path_to_utf8_with_tmpl :=
               \<lambda>src. conv_path_to_utf8_with_tmpl x (raw_uni_path r)\<rparr>) g m r
      \<and> print_text_record x g m (r\<lparr>raw_legacy_path := p\<rparr>)
          = (fst (print_text_record x g m r),
             (snd (print_text_record x g m r))\<lparr>raw_legacy_path := p\<rparr>)
      \<and> print_xml_record x g m (r\<lparr>raw_legacy_path := p\<rparr>)
          = (fst (print_xml_record x g m r),
             (snd (print_xml_record x g m r))\<lparr>raw_legacy_path := p\<rparr>)
      \<and> print_json_record x g m (r\<lparr>raw_legacy_path := p\<rparr>)
          = (fst (print_json_record x g m r),
             (snd (print_json_record x g m r))\<lparr>raw_legacy_path := p\<rparr>))
   \<and> (legacy_encoding g \<noteq> None \<longrightarrow>
      snd (print_text_record x g m r) = r\<lparr>error := snd (conv_path_to_utf8_with_tmpl x
          (raw_legacy_path r) (legacy_encoding g) FORMAT_TEXT None (error r))\<rparr>
      \<and> snd (print_xml_record x g m r) = r\<lparr>error := snd (conv_path_to_utf8_with_tmpl x
          (raw_legacy_path r) (legacy_encoding g) FORMAT_XML None (error r))\<rparr>
      \<and> snd (print_json_record x g m r) = r\<lparr>error := snd (conv_path_to_utf8_with_tmpl x
          (raw_legacy_path r) (legacy_encoding g) FORMAT_JSON (Some (json_escape x)) (error r))\<rparr>
      \<and> print_text_record x g m r = print_text_record
          (x\<lparr>conv_path_to_utf8_with_tmpl :=
               \<lambda>src. conv_path_to_utf8_with_tmpl x (raw_legacy_path r)\<rparr>) g m r
      \<and> print_xml_record x g m r = print_xml_record
          (x\<lparr>conv_path_to_utf8_with_tmpl :=
               \<lambda>src. conv_path_to_utf8_with_tmpl x (raw_legacy_path r)\<rparr>) g m r
      \<and> print_json_record x g m r = print_json_record
          (x\<lparr>conv_path_to_utf8_with_tmpl :=
               \<lambda>src. conv_path_to_utf8_with_tmpl x (raw_legacy_path r)\<rparr>) g m r
      \<and> print_text_record x g m (r\<lparr>raw_uni_path := p\<rparr>)
          = (fst (print_text_record x g m r),
             (snd (print_text_record x g m r))\<lparr>raw_uni_path := p\<rparr>)
      \<and> print_xml_record x g m (r\<lparr>raw_uni_path := p\<rparr>)
          = (fst (print_xml_record x g m r),
             (snd (print_xml_record x g m r))\<lparr>raw_uni_path := p\<rparr>)
      \<and> print_json_record x g m (r\<lparr>raw_uni_path := p\<rparr>)
          = (fst (print_json_record x g m r),
             (snd (print_json_record x g m r))\<lparr>raw_uni_path := p\<rparr>))"
proof (cases "legacy_encoding g = None")
  case True
  have e: "snd (print_text_record x g m r) = r\<lparr>error := snd (conv_path_to_utf8_with_tmpl x
          (raw_uni_path r) None FORMAT_TEXT None (error r))\<rparr>"
    "snd (print_xml_record x g m r) = r\<lparr>error := snd (conv_path_to_utf8_with_tmpl x
          (raw_uni_path r) None FORMAT_XML None (error r))\<rparr>"
    "snd (print_json_record x g m r) = r\<lparr>error := snd (conv_path_to_utf8_with_tmpl x
          (raw_uni_path r) None FORMAT_JSON (Some (json_escape x)) (error r))\<rparr>"
    using True
    by (simp_all add: snd_print_text_record snd_print_xml_record snd_print_json_record)
  have s: "print_text_record x g m r = print_text_record
          (x\<lparr>conv_path_to_utf8_with_tmpl :=
               \<lambda>src. conv_path_to_utf8_with_tmpl x (raw_uni_path r)\<rparr>) g m r"
    "print_xml_record x g m r = print_xml_record
          (x\<lparr>conv_path_to_utf8_with_tmpl :=
               \<lambda>src. conv_path_to_utf8_with_tmpl x (raw_uni_path r)\<rparr>) g m r"
    "print_json_record x g m r = print_json_record
          (x\<lparr>conv_path_to_utf8_with_tmpl :=
               \<lambda>src. conv_path_to_utf8_with_tmpl x (raw_uni_path r)\<rparr>) g m r"
    using True text_same_conversion [of x g m r] xml_same_conversion [of x g m r]
      json_same_conversion [of x g m r]
    by simp_all
  show ?thesis
    using True e s text_other_path(1) [OF True] xml_other_path(1) [OF True]
      json_other_path(1) [OF True]
    by blast
next
  case False
  have e: "snd (print_text_record x g m r) = r\<lparr>error := snd (conv_path_to_utf8_with_tmpl x
          (raw_legacy_path r) (legacy_encoding g) FORMAT_TEXT None (error r))\<rparr>"
    "snd (print_xml_record x g m r) = r\<lparr>error := snd (conv_path_to_utf8_with_tmpl x
          (raw_legacy_path r) (legacy_encoding g) FORMAT_XML None (error r))\<rparr>"
    "snd (print_json_record x g m r) = r\<lparr>error := snd (conv_path_to_utf8_with_tmpl x
          (raw_legacy_path r) (legacy_encoding g) FORMAT_JSON (Some (json_escape x)) (error r))\<rparr>"
    using False
    by (simp_all add: snd_print_text_record snd_print_xml_record snd_print_json_record)
  have s: "print_text_record x g m r = print_text_record
          (x\<lparr>conv_path_to_utf8_with_tmpl :=
               \<lambda>src. conv_path_to_utf8_with_tmpl x (raw_legacy_path r)\<rparr>) g m r"
    "print_xml_record x g m r = print_xml_record
          (x\<lparr>conv_path_to_utf8_with_tmpl :=
               \<lambda>src. conv_path_to_utf8_with_tmpl x (raw_legacy_path r)\<rparr>) g m r"
    "print_json_record x g m r = print_json_record
          (x\<lparr>conv_path_to_utf8_with_tmpl :=
               \<lambda>src. conv_path_to_utf8_with_tmpl x (raw_legacy_path r)\<rparr>) g m r"
    using False text_same_conversion [of x g m r] xml_same_conversion [of x g m r]
      json_same_conversion [of x g m r]
    by simp_all
  show ?thesis
    using False e s text_other_path(2) [OF False] xml_other_path(2) [OF False]
      json_other_path(2) [OF False]
    by blast
qed

lemma print_text_unicode_source:
  "print_text_record sample_ext sample_globals sample_info2
       (sample_record\<lparr>raw_legacy_path := Some [0x42]\<rparr>)
     = (''1'' @ tab @ ''0'' @ tab @ ''no'' @ tab @ ''42'' @ tab @ ''A'' @ newline,
        sample_record\<lparr>raw_legacy_path := Some [0x42]\<rparr>)"
  by (simp add: print_text_record_def sample_ext_def sample_globals_def initial_globals_def
      sample_info2_def sample_record_def spec_conv_path_to_utf8_def utf16le_A dec_1 dec_42
      dec_int_0 g_strjoinv_5 Let_def G_MAXUINT64_def)

lemma print_text_legacy_source:
  "print_text_record sample_ext (sample_globals\<lparr>legacy_encoding := Some ''CP1252''\<rparr>)
       sample_info2 (sample_record\<lparr>raw_legacy_path := Some [0x42]\<rparr>)
     = (''1'' @ tab @ ''0'' @ tab @ ''no'' @ tab @ ''42'' @ tab @ ''B'' @ newline,
        sample_record\<lparr>raw_legacy_path := Some [0x42]\<rparr>)"
  by (simp add: print_text_record_def sample_ext_def sample_globals_def initial_globals_def
      sample_info2_def sample_record_def spec_conv_path_to_utf8_def sample_codepage_B dec_1
      dec_42 dec_int_0 g_strjoinv_5 Let_def G_MAXUINT64_def)

theorem C8_conversion_source_witness:
  "legacy_encoding sample_globals = None
   \<and> print_text_record sample_ext sample_globals sample_info2
       (sample_record\<lparr>raw_legacy_path := Some [0x42]\<rparr>)
     = (''1'' @ tab @ ''0'' @ tab @ ''no'' @ tab @ ''42'' @ tab @ ''A'' @ newline,
        sample_record\<lparr>raw_legacy_path := Some [0x42]\<rparr>)
   \<and> print_text_record sample_ext sample_globals sample_info2
       (sample_record\<lparr>raw_legacy_path := Some [0x42]\<rparr>)
     = (fst (print_text_record sample_ext sample_globals sample_info2 sample_record),
        (snd (print_text_record sample_ext sample_globals sample_info2 sample_record))
          \<lparr>raw_legacy_path := Some [0x42]\<rparr>)
   \<and> legacy_encoding (sample_globals\<lparr>legacy_encoding := Some ''CP1252''\<rparr>) \<noteq> None
   \<and> print_text_record sample_ext (sample_globals\<lparr>legacy_encoding := Some ''CP1252''\<rparr>)
       sample_info2 (sample_record\<lparr>raw_legacy_path := Some [0x42]\<rparr>)
     = (''1'' @ tab @ ''0'' @ tab @ ''no'' @ tab @ ''42'' @ tab @ ''B'' @ newline,
        sample_record\<lparr>raw_legacy_path := Some [0x42]\<rparr>)
   \<and> snd (print_text_record sample_ext (sample_globals\<lparr>legacy_encoding := Some ''CP1252''\<rparr>)
       sample_info2 (sample_record\<lparr>raw_legacy_path := Some [0x42]\<rparr>))
     = sample_record\<lparr>raw_legacy_path := Some [0x42],
         error := snd (conv_path_to_utf8_with_tmpl sample_ext (Some [0x42]) (Some ''CP1252'')
           FORMAT_TEXT None (error sample_record))\<rparr>"
proof -
  have n: "legacy_encoding sample_globals = None"
    by (simp add: sample_globals_def initial_globals_def)
  have l: "legacy_encoding (sample_globals\<lparr>legacy_encoding := Some ''CP1252''\<rparr>) \<noteq> None"
    by simp
  have i1: "print_text_record sample_ext sample_globals sample_info2
       (sample_record\<lparr>raw_legacy_path := Some [0x42]\<rparr>)
     = (fst (print_text_record sample_ext sample_globals sample_info2 sample_record),
        (snd (print_text_record sample_ext sample_globals sample_info2 sample_record))
          \<lparr>raw_legacy_path := Some [0x42]\<rparr>)"
    using n C8_conversion_source [of sample_globals sample_ext sample_info2 sample_record
        "Some [0x42]"]
    by blast
  have "snd (print_text_record sample_ext (sample_globals\<lparr>legacy_encoding := Some ''CP1252''\<rparr>)
       sample_info2 (sample_record\<lparr>raw_legacy_path := Some [0x42]\<rparr>))
     = sample_record\<lparr>raw_legacy_path := Some [0x42],
         error := snd (conv_path_to_utf8_with_tmpl sample_ext
           (raw_legacy_path (sample_record\<lparr>raw_legacy_path := Some [0x42]\<rparr>))
           (legacy_encoding (sample_globals\<lparr>legacy_encoding := Some ''CP1252''\<rparr>))
           FORMAT_TEXT None (error (sample_record\<lparr>raw_legacy_path := Some [0x42]\<rparr>)))\<rparr>"
    using l C8_conversion_source [of "sample_globals\<lparr>legacy_encoding := Some ''CP1252''\<rparr>"
        sample_ext sample_info2 "sample_record\<lparr>raw_legacy_path := Some [0x42]\<rparr>" None]
    by blast
  then have i2: "snd (print_text_record sample_ext
       (sample_globals\<lparr>legacy_encoding := Some ''CP1252''\<rparr>)
       sample_info2 (sample_record\<lparr>raw_legacy_path := Some [0x42]\<rparr>))
     = sample_record\<lparr>raw_legacy_path := Some [0x42],
         error := snd (conv_path_to_utf8_with_tmpl sample_ext (Some [0x42]) (Some ''CP1252'')
           FORMAT_TEXT None (error sample_record))\<rparr>"
    by simp
  show ?thesis
    using n l print_text_unicode_source print_text_legacy_source i1 i2
    by (intro conjI)
qed

subsection \<open>Serialization: the size\<close>

























end
